theory Spec2Isabelle
  imports Complex_Main "HOL-Library.Word"
begin

unbundle bit_operations_syntax

section \<open>Cell types (mesh.hpp)\<close>

text \<open>
  \<^verbatim>\<open>CellTypeBase\<close> holds the type id codes and the global maxima as 8-bit constants.
\<close>

definition NONCELLTYPE :: "8 word" where "NONCELLTYPE = 0"
definition POINT :: "8 word" where "POINT = 1"
definition LINE :: "8 word" where "LINE = 2"
definition QUADRILATERAL :: "8 word" where "QUADRILATERAL = 3"
definition TRIANGLE :: "8 word" where "TRIANGLE = 4"
definition HEXAHEDRON :: "8 word" where "HEXAHEDRON = 5"
definition TETRAHEDRON :: "8 word" where "TETRAHEDRON = 6"
definition PRISM :: "8 word" where "PRISM = 7"
definition PYRAMID :: "8 word" where "PYRAMID = 8"
definition NTYPE :: "8 word" where "NTYPE = 8"

definition FCNND_MAX :: "8 word" where "FCNND_MAX = 4"
definition FCNCL_MAX :: "8 word" where "FCNCL_MAX = 2"
definition CLNND_MAX :: "8 word" where "CLNND_MAX = 8"
definition CLNFC_MAX :: "8 word" where "CLNFC_MAX = 6"

text \<open>
  \<^verbatim>\<open>template < uint8_t ND > struct CellType\<close>: the template parameter is the field
  \<open>NDIM\<close>; the four private members follow.
\<close>

record CellType =
  NDIM :: "8 word"
  m_id :: "8 word"
  m_nnode :: "8 word"
  m_nedge :: "8 word"
  m_nsurface :: "8 word"

definition CellType_ctor :: "8 word \<Rightarrow> 8 word \<Rightarrow> 8 word \<Rightarrow> 8 word \<Rightarrow> 8 word \<Rightarrow> CellType" where
  "CellType_ctor ND id_in nnode_in nedge_in nsurface_in =
     \<lparr>NDIM = ND, m_id = id_in, m_nnode = nnode_in, m_nedge = nedge_in, m_nsurface = nsurface_in\<rparr>"

definition id_of :: "CellType \<Rightarrow> 8 word" where "id_of ct = m_id ct"
definition ndim :: "CellType \<Rightarrow> 8 word" where "ndim ct = NDIM ct"
definition nnode :: "CellType \<Rightarrow> 8 word" where "nnode ct = m_nnode ct"
definition nedge :: "CellType \<Rightarrow> 8 word" where "nedge ct = m_nedge ct"
definition nsurface :: "CellType \<Rightarrow> 8 word" where "nsurface ct = m_nsurface ct"

definition nface :: "CellType \<Rightarrow> 8 word" where
  "nface ct =
     (if 2 = NDIM ct then nedge ct
      else if 3 = NDIM ct then nsurface ct
      else 0)"

definition name :: "CellType \<Rightarrow> string" where
  "name ct =
     (if id_of ct = POINT then ''point''
      else if id_of ct = LINE then ''line''
      else if id_of ct = QUADRILATERAL then ''quadrilateral''
      else if id_of ct = TRIANGLE then ''triangle''
      else if id_of ct = HEXAHEDRON then ''hexahedron''
      else if id_of ct = TETRAHEDRON then ''tetrahedron''
      else if id_of ct = PRISM then ''prism''
      else if id_of ct = PYRAMID then ''pyramid''
      else ''noncelltype'')"

text \<open>The eight declarations of \<^verbatim>\<open>MM_DECL_CELL_TYPE(NAME, TYPE, NDIM, NNODE, NEDGE, NSURFACE)\<close>.\<close>

definition PointCellType :: CellType where
  "PointCellType = CellType_ctor 0 1 1 0 0"
definition LineCellType :: CellType where
  "LineCellType = CellType_ctor 1 2 2 0 0"
definition QuadrilateralCellType :: CellType where
  "QuadrilateralCellType = CellType_ctor 2 3 4 4 0"
definition TriangleCellType :: CellType where
  "TriangleCellType = CellType_ctor 2 4 3 3 0"
definition HexahedronCellType :: CellType where
  "HexahedronCellType = CellType_ctor 3 5 8 12 6"
definition TetrahedronCellType :: CellType where
  "TetrahedronCellType = CellType_ctor 3 6 4 6 4"
definition PrismCellType :: CellType where
  "PrismCellType = CellType_ctor 3 7 6 9 5"
definition PyramidCellType :: CellType where
  "PyramidCellType = CellType_ctor 3 8 5 8 5"

definition cell_types :: "CellType list" where
  "cell_types =
     [PointCellType, LineCellType, QuadrilateralCellType, TriangleCellType,
      HexahedronCellType, TetrahedronCellType, PrismCellType, PyramidCellType]"

section \<open>Buffers and arrays\<close>

text \<open>
  The element types of the eleven concrete arrays. Signed and unsigned integers of one
  width share the word type and differ in the constructor, which fixes how the bits are
  read. A floating-point element is its IEEE-754 bit pattern: the operations modelled here
  only copy such values.
\<close>

datatype scalar =
    VBool bool
  | VInt8 "8 word" | VInt16 "16 word" | VInt32 "32 word" | VInt64 "64 word"
  | VUint8 "8 word" | VUint16 "16 word" | VUint32 "32 word" | VUint64 "64 word"
  | VFloat32 "32 word" | VFloat64 "64 word"

type_synonym size_t = "64 word"
type_synonym shape_type = "size_t list"


datatype error =
    cast_error
  | runtime_error string
  | UnsupportedDatatypeError
  | AllocationError

text \<open>
  Modelled from the spec: the buffer and array classes (\<^verbatim>\<open>ConcreteBuffer\<close>, and
  \<^verbatim>\<open>SimpleArray\<close> of \<^verbatim>\<open>modmesh/SimpleArray.hpp\<close>), which the two files modelled
  here only use. Following sections 3 and 4.1--4.2 of the specification, a buffer has a
  byte length and a contiguous region holding one element per position, an element being
  \<open>None\<close> while it is uninitialised; an array is a shape and a reference to the one buffer
  it owns. The store maps addresses to live buffers (address \<open>a\<close> is position \<open>a\<close> of
  \<open>cells\<close>, \<open>None\<close> once the buffer has been released) and knows how many bytes the
  allocator can still hand out (\<open>capacity\<close>).
\<close>

record ConcreteBuffer =
  m_nbytes :: nat
  m_data :: "scalar option list"

record heap =
  cells :: "ConcreteBuffer option list"
  capacity :: nat

definition buffer_at :: "heap \<Rightarrow> nat \<Rightarrow> ConcreteBuffer option" where
  "buffer_at h a = (if a < length (cells h) then cells h ! a else None)"

text \<open>
  Modelled from the spec: \<^verbatim>\<open>allocate(byteLength)\<close> of section 4.1 ``fails with an
  allocation error if \<open>byteLength\<close> cannot be satisfied''. A byte length can be satisfied
  when it is a \<^verbatim>\<open>size_t\<close> and the allocator still has that many bytes; allocation is
  atomic, so a failed request leaves the store as it was. A satisfied request places the
  buffer at the next address (\<open>place\<close>). Releasing a buffer gives its bytes back.
\<close>

definition can_allocate :: "heap \<Rightarrow> nat \<Rightarrow> bool" where
  "can_allocate h nbytes = (nbytes \<le> capacity h \<and> nbytes < 2 ^ 64)"

definition place :: "ConcreteBuffer \<Rightarrow> heap \<Rightarrow> heap" where
  "place b h = h\<lparr>cells := cells h @ [Some b], capacity := capacity h - m_nbytes b\<rparr>"

definition allocate :: "nat \<Rightarrow> nat \<Rightarrow> heap \<Rightarrow> (error + nat) \<times> heap" where
  "allocate itemsize n h =
     (if can_allocate h (n * itemsize)
      then (Inr (length (cells h)),
            place \<lparr>m_nbytes = n * itemsize, m_data = replicate n None\<rparr> h)
      else (Inl AllocationError, h))"

definition release :: "nat \<Rightarrow> heap \<Rightarrow> heap" where
  "release a h =
     (case buffer_at h a of
        None \<Rightarrow> h
      | Some b \<Rightarrow> h\<lparr>cells := (cells h)[a := None], capacity := capacity h + m_nbytes b\<rparr>)"

record SimpleArray =
  m_shape :: shape_type
  m_buffer :: nat

definition nelem :: "shape_type \<Rightarrow> nat" where
  "nelem shape = prod_list (map unat shape)"

text \<open>
  Modelled from the spec: \<^verbatim>\<open>construct(shape, dtype)\<close> of section 4.2 builds an owning
  buffer sized \<open>product(shape) * sizeof(T)\<close> with uninitialised content; \<open>itemsize\<close> is
  \<open>sizeof(T)\<close>.
\<close>

definition SimpleArray_ctor :: "nat \<Rightarrow> shape_type \<Rightarrow> heap \<Rightarrow> (error + SimpleArray) \<times> heap" where
  "SimpleArray_ctor itemsize shape h =
     (case allocate itemsize (nelem shape) h of
        (Inl e, h') \<Rightarrow> (Inl e, h')
      | (Inr a, h') \<Rightarrow> (Inr \<lparr>m_shape = shape, m_buffer = a\<rparr>, h'))"

text \<open>
  Modelled from the spec: \<^verbatim>\<open>fill(value)\<close> of section 4.2 writes the value to every
  element of the array's buffer.
\<close>

definition fill :: "SimpleArray \<Rightarrow> scalar \<Rightarrow> heap \<Rightarrow> heap" where
  "fill arr v h =
     (case buffer_at h (m_buffer arr) of
        None \<Rightarrow> h
      | Some b \<Rightarrow>
          h\<lparr>cells := (cells h)[m_buffer arr := Some (b\<lparr>m_data := map (\<lambda>_. Some v) (m_data b)\<rparr>)]\<rparr>)"

text \<open>
  Modelled from the spec: the copy constructor of the array class, which section 4.3
  describes for \<^verbatim>\<open>typed()\<close> as producing a fresh array with freshly owned storage: a new
  buffer of the byte length of the source is allocated, which can fail as every allocation
  can, and receives the elements of the source; the shape is copied. (A source whose
  buffer is not live does not arise from the constructors; it is copied as an empty one.)
\<close>

definition SimpleArray_copy :: "SimpleArray \<Rightarrow> heap \<Rightarrow> (error + SimpleArray) \<times> heap" where
  "SimpleArray_copy other h =
     (let b = (case buffer_at h (m_buffer other) of
                 None \<Rightarrow> \<lparr>m_nbytes = 0, m_data = []\<rparr>
               | Some b \<Rightarrow> b)
      in if can_allocate h (m_nbytes b)
         then (Inr \<lparr>m_shape = m_shape other, m_buffer = length (cells h)\<rparr>, place b h)
         else (Inl AllocationError, h))"

text \<open>Destruction of an array releases the buffer it owns.\<close>

definition SimpleArray_dtor :: "SimpleArray \<Rightarrow> heap \<Rightarrow> heap" where
  "SimpleArray_dtor arr h = release (m_buffer arr) h"

section \<open>The static mesh (mesh.hpp)\<close>

text \<open>
  \<^verbatim>\<open>StaticMeshBase<D, ND>\<close>. The types \<^verbatim>\<open>uint_type\<close>, \<^verbatim>\<open>int_type\<close> and
  \<^verbatim>\<open>real_type\<close> come from \<^verbatim>\<open>SpaceBase\<close> in \<^verbatim>\<open>modmesh/base.hpp\<close>, outside
  \<^verbatim>\<open>mesh.hpp\<close>: the record takes the count type as a parameter, the constructor works at
  any width \<open>'u\<close> of the counts, and the sizes of a real and of an integer element are the
  parameters \<open>sizeof_real\<close> and \<open>sizeof_int\<close>. The braced initialisers
  \<^verbatim>\<open>std::vector<size_t>{nnode, NDIM}\<close> convert each count to \<^verbatim>\<open>size_t\<close>. A table is
  uninitialised after construction, so its element type shows only in the byte length of
  its buffer.
\<close>

definition FCMND :: "8 word" where "FCMND = FCNND_MAX"
definition FCMCL :: "8 word" where "FCMCL = FCNCL_MAX"
definition CLMND :: "8 word" where "CLMND = CLNND_MAX"
definition CLMFC :: "8 word" where "CLMFC = CLNFC_MAX"
definition FCNCL :: "8 word" where "FCNCL = 4"
definition FCREL :: "8 word" where "FCREL = 4"
definition BFREL :: "8 word" where "BFREL = 3"

record 'c StaticMeshBase =
  mesh_NDIM :: "8 word"
  m_nnode :: 'c
  m_nface :: 'c
  m_ncell :: 'c
  m_nbound :: 'c
  m_ngstnode :: 'c
  m_ngstface :: 'c
  m_ngstcell :: 'c
  m_use_incenter :: bool
  m_ndcrd :: SimpleArray
  m_fccnd :: SimpleArray
  m_fcnml :: SimpleArray
  m_fcara :: SimpleArray
  m_clcnd :: SimpleArray
  m_clvol :: SimpleArray
  m_fctpn :: SimpleArray
  m_cltpn :: SimpleArray
  m_clgrp :: SimpleArray
  m_fcnds :: SimpleArray
  m_fccls :: SimpleArray
  m_clnds :: SimpleArray
  m_clfcs :: SimpleArray

text \<open>
  One entry of the member initialiser list: the table is constructed and the rest of the
  list runs; when the construction throws, the constructor ends with that exception, and
  when a later entry throws, the table, already constructed, is destroyed on the way out.
  The tables are initialised in the order of their declaration, which is the order of the
  list.
\<close>

definition init_member ::
  "nat \<Rightarrow> shape_type \<Rightarrow> (SimpleArray \<Rightarrow> heap \<Rightarrow> (error + 'r) \<times> heap) \<Rightarrow> heap
     \<Rightarrow> (error + 'r) \<times> heap" where
  "init_member itemsize shape rest h =
     (case SimpleArray_ctor itemsize shape h of
        (Inl e, h1) \<Rightarrow> (Inl e, h1)
      | (Inr arr, h1) \<Rightarrow>
          (case rest arr h1 of
             (Inl e, h2) \<Rightarrow> (Inl e, SimpleArray_dtor arr h2)
           | (Inr r, h2) \<Rightarrow> (Inr r, h2)))"

definition StaticMeshBase_ctor ::
  "nat \<Rightarrow> nat \<Rightarrow> 8 word \<Rightarrow> 'u::len word \<Rightarrow> 'u word \<Rightarrow> 'u word \<Rightarrow> 'u word \<Rightarrow> heap
     \<Rightarrow> (error + 'u word StaticMeshBase) \<times> heap"
where
  "StaticMeshBase_ctor sizeof_real sizeof_int ND nnode_in nface_in ncell_in nbound_in =
     init_member sizeof_real [ucast nnode_in, ucast ND] (\<lambda>ndcrd.
     init_member sizeof_real [ucast nface_in, ucast ND] (\<lambda>fccnd.
     init_member sizeof_real [ucast nface_in, ucast ND] (\<lambda>fcnml.
     init_member sizeof_real [ucast nface_in] (\<lambda>fcara.
     init_member sizeof_real [ucast ncell_in, ucast ND] (\<lambda>clcnd.
     init_member sizeof_real [ucast ncell_in] (\<lambda>clvol.
     init_member sizeof_int [ucast ncell_in] (\<lambda>fctpn.
     init_member sizeof_int [ucast ncell_in] (\<lambda>cltpn.
     init_member sizeof_int [ucast ncell_in] (\<lambda>clgrp.
     init_member sizeof_int [ucast nface_in, ucast FCMND] (\<lambda>fcnds.
     init_member sizeof_int [ucast nface_in, ucast FCMCL] (\<lambda>fccls.
     init_member sizeof_int [ucast ncell_in, ucast CLMND] (\<lambda>clnds.
     init_member sizeof_int [ucast ncell_in, ucast CLMFC] (\<lambda>clfcs h.
       (Inr \<lparr>mesh_NDIM = ND,
             m_nnode = nnode_in, m_nface = nface_in, m_ncell = ncell_in, m_nbound = nbound_in,
             m_ngstnode = 0, m_ngstface = 0, m_ngstcell = 0,
             m_use_incenter = False,
             m_ndcrd = ndcrd, m_fccnd = fccnd, m_fcnml = fcnml, m_fcara = fcara,
             m_clcnd = clcnd, m_clvol = clvol,
             m_fctpn = fctpn, m_cltpn = cltpn, m_clgrp = clgrp,
             m_fcnds = fcnds, m_fccls = fccls, m_clnds = clnds, m_clfcs = clfcs\<rparr>,
        h))))))))))))))"

text \<open>\<^verbatim>\<open>StaticMesh2d\<close> and \<^verbatim>\<open>StaticMesh3d\<close> inherit the constructor at \<open>ND = 2\<close> and \<open>ND = 3\<close>.\<close>

definition StaticMesh2d ::
  "nat \<Rightarrow> nat \<Rightarrow> 'u::len word \<Rightarrow> 'u word \<Rightarrow> 'u word \<Rightarrow> 'u word \<Rightarrow> heap
     \<Rightarrow> (error + 'u word StaticMeshBase) \<times> heap" where
  "StaticMesh2d sizeof_real sizeof_int = StaticMeshBase_ctor sizeof_real sizeof_int 2"

definition StaticMesh3d ::
  "nat \<Rightarrow> nat \<Rightarrow> 'u::len word \<Rightarrow> 'u word \<Rightarrow> 'u word \<Rightarrow> 'u word \<Rightarrow> heap
     \<Rightarrow> (error + 'u word StaticMeshBase) \<times> heap" where
  "StaticMesh3d sizeof_real sizeof_int = StaticMeshBase_ctor sizeof_real sizeof_int 3"

text \<open>The count accessors and the table accessors (only the shape of a table is read here).\<close>

definition ngstnode :: "'c StaticMeshBase \<Rightarrow> 'c" where "ngstnode m = m_ngstnode m"
definition ngstface :: "'c StaticMeshBase \<Rightarrow> 'c" where "ngstface m = m_ngstface m"
definition ngstcell :: "'c StaticMeshBase \<Rightarrow> 'c" where "ngstcell m = m_ngstcell m"

definition ndcrd :: "'c StaticMeshBase \<Rightarrow> SimpleArray" where "ndcrd m = m_ndcrd m"
definition fctpn :: "'c StaticMeshBase \<Rightarrow> SimpleArray" where "fctpn m = m_fctpn m"
definition cltpn :: "'c StaticMeshBase \<Rightarrow> SimpleArray" where "cltpn m = m_cltpn m"
definition fcnds :: "'c StaticMeshBase \<Rightarrow> SimpleArray" where "fcnds m = m_fcnds m"
definition clfcs :: "'c StaticMeshBase \<Rightarrow> SimpleArray" where "clfcs m = m_clfcs m"

section \<open>Python values and their conversion (wrap_SimpleArrayPlex.cpp)\<close>

text \<open>
  The arguments \<^verbatim>\<open>shape_in\<close> and \<^verbatim>\<open>value\<close> are Python objects. The kinds that the
  wrapper distinguishes are modelled: \<open>True\<close>/\<open>False\<close>, an integer of unbounded size, a
  float (a C double, kept as its bit pattern) and a sequence of objects.
\<close>

datatype py_object =
    PyBool bool
  | PyInt int
  | PyFloat "64 word"
  | PyList "py_object list"

text \<open>
  \<^verbatim>\<open>pybind11::isinstance<bool_>\<close>, \<^verbatim>\<open>isinstance<int_>\<close> and \<^verbatim>\<open>isinstance<float_>\<close> are
  \<^verbatim>\<open>PyBool_Check\<close>, \<^verbatim>\<open>PyLong_Check\<close> and \<^verbatim>\<open>PyFloat_Check\<close>. Python's \<open>bool\<close> is a
  subclass of \<open>int\<close>, so \<open>True\<close> and \<open>False\<close> pass the integer check.
\<close>

fun isinstance_bool :: "py_object \<Rightarrow> bool" where
  "isinstance_bool (PyBool _) = True"
| "isinstance_bool _ = False"

fun isinstance_int :: "py_object \<Rightarrow> bool" where
  "isinstance_int (PyBool _) = True"
| "isinstance_int (PyInt _) = True"
| "isinstance_int _ = False"

fun isinstance_float :: "py_object \<Rightarrow> bool" where
  "isinstance_float (PyFloat _) = True"
| "isinstance_float _ = False"

text \<open>
  \<^verbatim>\<open>value.cast<T>()\<close> for an integral \<open>T\<close> runs pybind11's integer caster with conversion
  enabled: a float is refused, \<open>True\<close> and \<open>False\<close> are the integers 1 and 0, and an
  integer is accepted only when it is representable in \<open>T\<close> (the caster compares the value
  read from Python with its narrowing to \<open>T\<close>, and an unsigned \<open>T\<close> refuses a negative
  value). A refused conversion throws \<^verbatim>\<open>pybind11::cast_error\<close>, here the result \<open>None\<close>.
  \<open>cast_signed\<close> at width 8, 16, 32, 64 is \<^verbatim>\<open>cast<int8_t>\<close> ... \<^verbatim>\<open>cast<int64_t>\<close>;
  \<open>cast_unsigned\<close> is \<^verbatim>\<open>cast<uint8_t>\<close> ... \<^verbatim>\<open>cast<uint64_t>\<close> and \<^verbatim>\<open>cast<size_t>\<close>.
\<close>

fun cast_signed :: "py_object \<Rightarrow> 'a::len word option" where
  "cast_signed (PyBool b) = Some (of_bool b)"
| "cast_signed (PyInt n) =
     (if - (2 ^ (LENGTH('a) - 1)) \<le> n \<and> n < 2 ^ (LENGTH('a) - 1)
      then Some (word_of_int n) else None)"
| "cast_signed (PyFloat _) = None"
| "cast_signed (PyList _) = None"

fun cast_unsigned :: "py_object \<Rightarrow> 'a::len word option" where
  "cast_unsigned (PyBool b) = Some (of_bool b)"
| "cast_unsigned (PyInt n) =
     (if 0 \<le> n \<and> n < 2 ^ LENGTH('a) then Some (word_of_int n) else None)"
| "cast_unsigned (PyFloat _) = None"
| "cast_unsigned (PyList _) = None"

text \<open>
  \<^verbatim>\<open>cast<bool>\<close> and \<^verbatim>\<open>cast<double>\<close> are reached only behind the instance checks for
  \<open>bool\<close> and \<open>float\<close>: on \<open>True\<close>/\<open>False\<close> the first returns the truth value, on a float
  the second returns the stored double. The conversions pybind11 would attempt on other
  objects are not modelled (\<open>None\<close>). \<^verbatim>\<open>cast<float>\<close> narrows the stored double to single
  precision; the narrowing of C++ is the parameter \<open>to_float\<close>.
\<close>

fun cast_bool :: "py_object \<Rightarrow> bool option" where
  "cast_bool (PyBool b) = Some b"
| "cast_bool _ = None"

fun cast_double :: "py_object \<Rightarrow> 64 word option" where
  "cast_double (PyFloat d) = Some d"
| "cast_double _ = None"

definition cast_float :: "(64 word \<Rightarrow> 32 word) \<Rightarrow> py_object \<Rightarrow> 32 word option" where
  "cast_float to_float v = map_option to_float (cast_double v)"

text \<open>
  The narrowing on a platform with IEEE-754 arithmetic in its default rounding mode
  (round to nearest, ties to even; a value beyond the range becomes an infinity, a NaN
  stays a NaN). It is the narrowing passed for \<open>to_float\<close> where a statement below is about
  one concrete call.
\<close>

definition ieee_double_to_float :: "64 word \<Rightarrow> 32 word" where
  "ieee_double_to_float w =
     (let s = (if bit w 63 then 2 ^ 31 else 0 :: int);
          e = unat (take_bit 11 (drop_bit 52 w));
          m = uint (take_bit 52 w)
      in if e = 2047
         then word_of_int
           (s + 255 * 2 ^ 23 + (if m = 0 then 0 else 2 ^ 22 + (m div 2 ^ 29) mod 2 ^ 22))
         else
           (let M = (if e = 0 then m else 2 ^ 52 + m);
                E = max e 1;
                E' = max (E - 896) 1;
                shift = 925 + E' - E;
                q = M div 2 ^ shift;
                r = M mod 2 ^ shift;
                M' = (if 2 * r > 2 ^ shift \<or> (2 * r = 2 ^ shift \<and> odd q) then q + 1 else q);
                bits = min (int (E' - 1) * 2 ^ 23 + M') (255 * 2 ^ 23)
            in word_of_int (s + bits)))"

text \<open>
  \<^verbatim>\<open>cast<std::vector<size_t>>\<close>: pybind11's list caster accepts a sequence and converts
  each element with the element caster; one refused element refuses the whole sequence.
\<close>

fun cast_all :: "py_object list \<Rightarrow> size_t list option" where
  "cast_all [] = Some []"
| "cast_all (x # xs) =
     (case cast_unsigned x of
        None \<Rightarrow> None
      | Some n \<Rightarrow> (case cast_all xs of None \<Rightarrow> None | Some ns \<Rightarrow> Some (n # ns)))"

fun cast_vector :: "py_object \<Rightarrow> size_t list option" where
  "cast_vector (PyList xs) = cast_all xs"
| "cast_vector _ = None"


text \<open>
  \<^verbatim>\<open>make_shape\<close>: the scalar conversion is tried first; the handler of its
  \<^verbatim>\<open>cast_error\<close> converts the object as a sequence, and a failure there leaves the function
  as an exception.
\<close>

definition make_shape :: "py_object \<Rightarrow> error + shape_type" where
  "make_shape shape_in =
     (case cast_unsigned shape_in of
        Some n \<Rightarrow> Inr [n]
      | None \<Rightarrow>
          (case cast_vector shape_in of
             Some shape \<Rightarrow> Inr shape
           | None \<Rightarrow> Inl cast_error))"


section \<open>The array plex\<close>

text \<open>
  The tag of \<^verbatim>\<open>SimpleArrayPlex\<close>. The eleven values are the labels of the two switch
  statements; \<open>Undefined\<close> stands for a tag outside them, which takes the
  \<^verbatim>\<open>default\<close> branch.
\<close>

datatype DataType =
    Undefined
  | Bool
  | Int8 | Int16 | Int32 | Int64
  | Uint8 | Uint16 | Uint32 | Uint64
  | Float32 | Float64

record SimpleArrayPlex =
  m_data_type :: DataType
  m_instance :: SimpleArray

text \<open>
  Modelled from the spec: the constructor \<^verbatim>\<open>SimpleArrayPlex(shape, datatype)\<close>, which
  lives in \<^verbatim>\<open>modmesh/buffer\<close> and is only called by the wrapper. By section 4.3 it parses
  the dtype name against the fixed enumeration, whose names section 6 lists, fails with an
  "unsupported datatype" error when no name matches, and otherwise allocates an array
  of that element type and the given shape with uninitialised content, which fails when
  the allocation does.
\<close>

definition dtype_names :: "(string \<times> DataType) list" where
  "dtype_names =
     [(''bool'', Bool),
      (''int8'', Int8), (''int16'', Int16), (''int32'', Int32), (''int64'', Int64),
      (''uint8'', Uint8), (''uint16'', Uint16), (''uint32'', Uint32), (''uint64'', Uint64),
      (''float32'', Float32), (''float64'', Float64)]"

text \<open>Modelled from the spec: \<open>sizeof(T)\<close> for the element type \<open>T\<close> of each dtype.\<close>

fun itemsize :: "DataType \<Rightarrow> nat" where
  "itemsize Bool = 1"
| "itemsize Int8 = 1"
| "itemsize Int16 = 2"
| "itemsize Int32 = 4"
| "itemsize Int64 = 8"
| "itemsize Uint8 = 1"
| "itemsize Uint16 = 2"
| "itemsize Uint32 = 4"
| "itemsize Uint64 = 8"
| "itemsize Float32 = 4"
| "itemsize Float64 = 8"
| "itemsize Undefined = 0"

definition SimpleArrayPlex_ctor ::
  "shape_type \<Rightarrow> string \<Rightarrow> heap \<Rightarrow> (error + SimpleArrayPlex) \<times> heap" where
  "SimpleArrayPlex_ctor shape datatype h =
     (case map_of dtype_names datatype of
        None \<Rightarrow> (Inl UnsupportedDatatypeError, h)
      | Some dt \<Rightarrow>
          (case SimpleArray_ctor (itemsize dt) shape h of
             (Inl e, h') \<Rightarrow> (Inl e, h')
           | (Inr arr, h') \<Rightarrow> (Inr \<lparr>m_data_type = dt, m_instance = arr\<rparr>, h')))"

definition data_type :: "SimpleArrayPlex \<Rightarrow> DataType" where
  "data_type array_plex = m_data_type array_plex"

text \<open>The plex owns its array: destroying the plex destroys the array.\<close>

definition SimpleArrayPlex_dtor :: "SimpleArrayPlex \<Rightarrow> heap \<Rightarrow> heap" where
  "SimpleArrayPlex_dtor array_plex h = SimpleArray_dtor (m_instance array_plex) h"

text \<open>
  The first constructor registered by the wrapper:
  \<^verbatim>\<open>wrapped_type(make_shape(shape), datatype)\<close>.
\<close>

definition init_array_plex ::
  "py_object \<Rightarrow> string \<Rightarrow> heap \<Rightarrow> (error + SimpleArrayPlex) \<times> heap" where
  "init_array_plex shape_in datatype h =
     (case make_shape shape_in of
        Inl e \<Rightarrow> (Inl e, h)
      | Inr shape \<Rightarrow> SimpleArrayPlex_ctor shape datatype h)"

text \<open>
  \<^verbatim>\<open>init_array_plex_with_value\<close>. An exception thrown after \<^verbatim>\<open>array_plex\<close> has been
  constructed unwinds the stack and destroys that local object (\<open>throw_after\<close>). Each
  case of the switch checks the instance, converts the value and fills the array; the
  conversion is evaluated before \<^verbatim>\<open>fill\<close> is entered. The cases for \<^verbatim>\<open>Uint32\<close> and
  \<^verbatim>\<open>Uint64\<close> convert with \<^verbatim>\<open>cast<int32_t>\<close> and \<^verbatim>\<open>cast<int64_t>\<close>; the signed result
  becomes the unsigned fill value of the same bits.
\<close>

definition throw_after :: "SimpleArrayPlex \<Rightarrow> error \<Rightarrow> heap \<Rightarrow> (error + SimpleArrayPlex) \<times> heap" where
  "throw_after array_plex e h = (Inl e, SimpleArrayPlex_dtor array_plex h)"

definition fill_with ::
  "SimpleArrayPlex \<Rightarrow> scalar option \<Rightarrow> heap \<Rightarrow> (error + SimpleArrayPlex) \<times> heap" where
  "fill_with array_plex converted h =
     (case converted of
        None \<Rightarrow> throw_after array_plex cast_error h
      | Some v \<Rightarrow> (Inr array_plex, fill (m_instance array_plex) v h))"

definition expect_int ::
  "SimpleArrayPlex \<Rightarrow> py_object \<Rightarrow> scalar option \<Rightarrow> heap \<Rightarrow> (error + SimpleArrayPlex) \<times> heap" where
  "expect_int array_plex v converted h =
     (if \<not> isinstance_int v
      then throw_after array_plex (runtime_error ''Data type mismatch, expected Python int'') h
      else fill_with array_plex converted h)"

definition init_array_plex_with_value ::
  "(64 word \<Rightarrow> 32 word) \<Rightarrow> py_object \<Rightarrow> py_object \<Rightarrow> string \<Rightarrow> heap
     \<Rightarrow> (error + SimpleArrayPlex) \<times> heap" where
  "init_array_plex_with_value to_float shape_in v datatype h =
     (case make_shape shape_in of
        Inl e \<Rightarrow> (Inl e, h)
      | Inr shape \<Rightarrow>
     (case SimpleArrayPlex_ctor shape datatype h of
        (Inl e, h1) \<Rightarrow> (Inl e, h1)
      | (Inr array_plex, h1) \<Rightarrow>
     (case data_type array_plex of
        Bool \<Rightarrow>
          (if \<not> isinstance_bool v
           then throw_after array_plex (runtime_error ''Data type mismatch, expected Python bool'') h1
           else fill_with array_plex (map_option VBool (cast_bool v)) h1)
      | Int8 \<Rightarrow> expect_int array_plex v (map_option VInt8 (cast_signed v)) h1
      | Int16 \<Rightarrow> expect_int array_plex v (map_option VInt16 (cast_signed v)) h1
      | Int32 \<Rightarrow> expect_int array_plex v (map_option VInt32 (cast_signed v)) h1
      | Int64 \<Rightarrow> expect_int array_plex v (map_option VInt64 (cast_signed v)) h1
      | Uint8 \<Rightarrow> expect_int array_plex v (map_option VUint8 (cast_unsigned v)) h1
      | Uint16 \<Rightarrow> expect_int array_plex v (map_option VUint16 (cast_unsigned v)) h1
      | Uint32 \<Rightarrow> expect_int array_plex v (map_option VUint32 (cast_signed v)) h1
      | Uint64 \<Rightarrow> expect_int array_plex v (map_option VUint64 (cast_signed v)) h1
      | Float32 \<Rightarrow>
          (if \<not> isinstance_float v
           then throw_after array_plex (runtime_error ''Data type mismatch, expected Python float'') h1
           else fill_with array_plex (map_option VFloat32 (cast_float to_float v)) h1)
      | Float64 \<Rightarrow>
          (if \<not> isinstance_float v
           then throw_after array_plex (runtime_error ''Data type mismatch, expected Python float'') h1
           else fill_with array_plex (map_option VFloat64 (cast_double v)) h1)
      | Undefined \<Rightarrow> throw_after array_plex (runtime_error ''Unsupported datatype'') h1)))"

text \<open>
  \<^verbatim>\<open>get_typed_array\<close>: each case copy-constructs the concrete array and hands the copy to
  the caller; the result records which of the eleven concrete array types it is. A copy
  that cannot be allocated ends the function with the allocation error.
\<close>

datatype typed_array =
    SimpleArrayBool SimpleArray
  | SimpleArrayInt8 SimpleArray | SimpleArrayInt16 SimpleArray
  | SimpleArrayInt32 SimpleArray | SimpleArrayInt64 SimpleArray
  | SimpleArrayUint8 SimpleArray | SimpleArrayUint16 SimpleArray
  | SimpleArrayUint32 SimpleArray | SimpleArrayUint64 SimpleArray
  | SimpleArrayFloat32 SimpleArray | SimpleArrayFloat64 SimpleArray

definition copy_as ::
  "(SimpleArray \<Rightarrow> typed_array) \<Rightarrow> SimpleArrayPlex \<Rightarrow> heap \<Rightarrow> (error + typed_array) \<times> heap" where
  "copy_as T array_plex h =
     (case SimpleArray_copy (m_instance array_plex) h of
        (Inl e, h') \<Rightarrow> (Inl e, h')
      | (Inr arr, h') \<Rightarrow> (Inr (T arr), h'))"

definition get_typed_array :: "SimpleArrayPlex \<Rightarrow> heap \<Rightarrow> (error + typed_array) \<times> heap" where
  "get_typed_array array_plex h =
     (case data_type array_plex of
        Bool \<Rightarrow> copy_as SimpleArrayBool array_plex h
      | Int8 \<Rightarrow> copy_as SimpleArrayInt8 array_plex h
      | Int16 \<Rightarrow> copy_as SimpleArrayInt16 array_plex h
      | Int32 \<Rightarrow> copy_as SimpleArrayInt32 array_plex h
      | Int64 \<Rightarrow> copy_as SimpleArrayInt64 array_plex h
      | Uint8 \<Rightarrow> copy_as SimpleArrayUint8 array_plex h
      | Uint16 \<Rightarrow> copy_as SimpleArrayUint16 array_plex h
      | Uint32 \<Rightarrow> copy_as SimpleArrayUint32 array_plex h
      | Uint64 \<Rightarrow> copy_as SimpleArrayUint64 array_plex h
      | Float32 \<Rightarrow> copy_as SimpleArrayFloat32 array_plex h
      | Float64 \<Rightarrow> copy_as SimpleArrayFloat64 array_plex h
      | Undefined \<Rightarrow> (Inl (runtime_error ''Unsupported datatype''), h))"

text \<open>Reading a typed array: its element type, its array, and the content of its buffer.\<close>

fun element_type :: "typed_array \<Rightarrow> DataType" where
  "element_type (SimpleArrayBool _) = Bool"
| "element_type (SimpleArrayInt8 _) = Int8"
| "element_type (SimpleArrayInt16 _) = Int16"
| "element_type (SimpleArrayInt32 _) = Int32"
| "element_type (SimpleArrayInt64 _) = Int64"
| "element_type (SimpleArrayUint8 _) = Uint8"
| "element_type (SimpleArrayUint16 _) = Uint16"
| "element_type (SimpleArrayUint32 _) = Uint32"
| "element_type (SimpleArrayUint64 _) = Uint64"
| "element_type (SimpleArrayFloat32 _) = Float32"
| "element_type (SimpleArrayFloat64 _) = Float64"

fun array_of :: "typed_array \<Rightarrow> SimpleArray" where
  "array_of (SimpleArrayBool a) = a"
| "array_of (SimpleArrayInt8 a) = a"
| "array_of (SimpleArrayInt16 a) = a"
| "array_of (SimpleArrayInt32 a) = a"
| "array_of (SimpleArrayInt64 a) = a"
| "array_of (SimpleArrayUint8 a) = a"
| "array_of (SimpleArrayUint16 a) = a"
| "array_of (SimpleArrayUint32 a) = a"
| "array_of (SimpleArrayUint64 a) = a"
| "array_of (SimpleArrayFloat32 a) = a"
| "array_of (SimpleArrayFloat64 a) = a"

definition elements :: "heap \<Rightarrow> SimpleArray \<Rightarrow> scalar option list option" where
  "elements h arr = map_option m_data (buffer_at h (m_buffer arr))"

text \<open>The type of an element and the integer an integral element denotes.\<close>

fun scalar_type :: "scalar \<Rightarrow> DataType" where
  "scalar_type (VBool _) = Bool"
| "scalar_type (VInt8 _) = Int8"
| "scalar_type (VInt16 _) = Int16"
| "scalar_type (VInt32 _) = Int32"
| "scalar_type (VInt64 _) = Int64"
| "scalar_type (VUint8 _) = Uint8"
| "scalar_type (VUint16 _) = Uint16"
| "scalar_type (VUint32 _) = Uint32"
| "scalar_type (VUint64 _) = Uint64"
| "scalar_type (VFloat32 _) = Float32"
| "scalar_type (VFloat64 _) = Float64"

fun int_value :: "scalar \<Rightarrow> int option" where
  "int_value (VInt8 w) = Some (sint w)"
| "int_value (VInt16 w) = Some (sint w)"
| "int_value (VInt32 w) = Some (sint w)"
| "int_value (VInt64 w) = Some (sint w)"
| "int_value (VUint8 w) = Some (uint w)"
| "int_value (VUint16 w) = Some (uint w)"
| "int_value (VUint32 w) = Some (uint w)"
| "int_value (VUint64 w) = Some (uint w)"
| "int_value _ = None"

section \<open>Vocabulary of the statements\<close>

text \<open>
  The integer dtypes, and the integers that the C++ element type of an integer dtype can
  represent.
\<close>

definition integer_dtype :: "DataType \<Rightarrow> bool" where
  "integer_dtype D = (D \<in> {Int8, Int16, Int32, Int64, Uint8, Uint16, Uint32, Uint64})"

fun representable :: "DataType \<Rightarrow> int \<Rightarrow> bool" where
  "representable Int8 n = (- (2 ^ 7) \<le> n \<and> n < 2 ^ 7)"
| "representable Int16 n = (- (2 ^ 15) \<le> n \<and> n < 2 ^ 15)"
| "representable Int32 n = (- (2 ^ 31) \<le> n \<and> n < 2 ^ 31)"
| "representable Int64 n = (- (2 ^ 63) \<le> n \<and> n < 2 ^ 63)"
| "representable Uint8 n = (0 \<le> n \<and> n < 2 ^ 8)"
| "representable Uint16 n = (0 \<le> n \<and> n < 2 ^ 16)"
| "representable Uint32 n = (0 \<le> n \<and> n < 2 ^ 32)"
| "representable Uint64 n = (0 \<le> n \<and> n < 2 ^ 64)"
| "representable _ n = False"

text \<open>
  Following the words of the specification, not the code: an integral value ``narrowed
  to the destination width per fixed-width integer wraparound rules'' is the value taken
  modulo two to the width of the dtype (\<open>word_of_int\<close>).
\<close>

fun narrowed_to :: "DataType \<Rightarrow> int \<Rightarrow> scalar option" where
  "narrowed_to Int8 n = Some (VInt8 (word_of_int n))"
| "narrowed_to Int16 n = Some (VInt16 (word_of_int n))"
| "narrowed_to Int32 n = Some (VInt32 (word_of_int n))"
| "narrowed_to Int64 n = Some (VInt64 (word_of_int n))"
| "narrowed_to Uint8 n = Some (VUint8 (word_of_int n))"
| "narrowed_to Uint16 n = Some (VUint16 (word_of_int n))"
| "narrowed_to Uint32 n = Some (VUint32 (word_of_int n))"
| "narrowed_to Uint64 n = Some (VUint64 (word_of_int n))"
| "narrowed_to _ n = None"

text \<open>
  The rational number a finite IEEE-754 double denotes (sign bit, eleven exponent bits
  with bias 1023, 52 fraction bits); infinities and NaNs denote none. The double 2.5 is
  \<open>1.25 * 2\<close>: exponent field 1024, fraction field \<open>2 ^ 50\<close>.
\<close>

definition double_value :: "64 word \<Rightarrow> rat option" where
  "double_value w =
     (let e = unat (take_bit 11 (drop_bit 52 w));
          m = unat (take_bit 52 w);
          s = (if bit w 63 then - 1 else 1)
      in if e = 2047 then None
         else if e = 0 then Some (s * of_nat m / 2 ^ 1074)
         else if e < 1075 then Some (s * of_nat (2 ^ 52 + m) / 2 ^ (1075 - e))
         else Some (s * of_nat (2 ^ 52 + m) * 2 ^ (e - 1075)))"

definition double_2_5 :: "64 word" where
  "double_2_5 = 0x4004000000000000"


text \<open>
  Following the words of the specification: the three families of dtypes and the kind of
  a fill value (``boolean values only for the Bool dtype, integral values only for integer
  dtypes, floating values only for float dtypes''). A sequence is of no kind.
\<close>

datatype family = BoolFamily | IntegerFamily | FloatFamily

fun family_of :: "DataType \<Rightarrow> family option" where
  "family_of Bool = Some BoolFamily"
| "family_of Float32 = Some FloatFamily"
| "family_of Float64 = Some FloatFamily"
| "family_of Undefined = None"
| "family_of _ = Some IntegerFamily"

fun kind_of :: "py_object \<Rightarrow> family option" where
  "kind_of (PyBool _) = Some BoolFamily"
| "kind_of (PyInt _) = Some IntegerFamily"
| "kind_of (PyFloat _) = Some FloatFamily"
| "kind_of (PyList _) = None"

text \<open>
  The bytes that the thirteen tables of a mesh take, in the order of their construction.
\<close>

definition mesh_bytes ::
  "nat \<Rightarrow> nat \<Rightarrow> 8 word \<Rightarrow> 'u::len word \<Rightarrow> 'u word \<Rightarrow> 'u word \<Rightarrow> nat" where
  "mesh_bytes sizeof_real sizeof_int ND n f c =
     nelem [ucast n, ucast ND] * sizeof_real +
     (nelem [ucast f, ucast ND] * sizeof_real +
     (nelem [ucast f, ucast ND] * sizeof_real +
     (nelem [ucast f] * sizeof_real +
     (nelem [ucast c, ucast ND] * sizeof_real +
     (nelem [ucast c] * sizeof_real +
     (nelem [ucast c] * sizeof_int +
     (nelem [ucast c] * sizeof_int +
     (nelem [ucast c] * sizeof_int +
     (nelem [ucast f, ucast FCMND] * sizeof_int +
     (nelem [ucast f, ucast FCMCL] * sizeof_int +
     (nelem [ucast c, ucast CLMND] * sizeof_int +
      nelem [ucast c, ucast CLMFC] * sizeof_int)))))))))))"

text \<open>
  The plex and the buffer that a satisfied construction of shape \<open>shape\<close> and dtype \<open>D\<close>
  places at the next address of a store; \<open>x\<close> is the state of every element.
\<close>

definition new_plex :: "DataType \<Rightarrow> shape_type \<Rightarrow> heap \<Rightarrow> SimpleArrayPlex" where
  "new_plex D shape h =
     \<lparr>m_data_type = D, m_instance = \<lparr>m_shape = shape, m_buffer = length (cells h)\<rparr>\<rparr>"

definition new_buffer :: "DataType \<Rightarrow> shape_type \<Rightarrow> scalar option \<Rightarrow> ConcreteBuffer" where
  "new_buffer D shape x =
     \<lparr>m_nbytes = nelem shape * itemsize D, m_data = replicate (nelem shape) x\<rparr>"

section \<open>Properties of the cell types\<close>

lemmas cell_type_defs =
  PointCellType_def LineCellType_def QuadrilateralCellType_def TriangleCellType_def
  HexahedronCellType_def TetrahedronCellType_def PrismCellType_def PyramidCellType_def
  CellType_ctor_def

lemma nface_cases:
  "nface ct = (if ndim ct = 2 then nedge ct else if ndim ct = 3 then nsurface ct else 0)"
  by (auto simp: nface_def ndim_def)

lemma nface_catalogue: "map nface cell_types = [0, 0, 4, 3, 6, 4, 5, 5]"
  by (simp add: cell_types_def cell_type_defs nface_def nedge_def nsurface_def)

lemma ndim_catalogue: "map ndim cell_types = [0, 1, 2, 2, 3, 3, 3, 3]"
  by (simp add: cell_types_def cell_type_defs ndim_def)

text \<open>
  Claim C8. For every cell type, the face count \<open>nface\<close> is the edge count when the
  dimensionality of the shape is 2 and the surface count when it is 3.
\<close>

theorem nface_by_dimension:
  "(ndim ct = 2 \<longrightarrow> nface ct = nedge ct) \<and> (ndim ct = 3 \<longrightarrow> nface ct = nsurface ct)"
  by (simp add: nface_cases)

theorem nface_by_dimension_witness:
  "ndim QuadrilateralCellType = 2 \<and> nface QuadrilateralCellType = nedge QuadrilateralCellType
   \<and> nface QuadrilateralCellType = 4
   \<and> ndim HexahedronCellType = 3 \<and> nface HexahedronCellType = nsurface HexahedronCellType
   \<and> nface HexahedronCellType = 6"
proof -
  have q: "ndim QuadrilateralCellType = 2" and h: "ndim HexahedronCellType = 3"
    by (simp_all add: cell_type_defs ndim_def)
  have "nface QuadrilateralCellType = nedge QuadrilateralCellType"
    using nface_by_dimension [of QuadrilateralCellType] q by blast
  moreover have "nface HexahedronCellType = nsurface HexahedronCellType"
    using nface_by_dimension [of HexahedronCellType] h by blast
  moreover have "nedge QuadrilateralCellType = 4" and "nsurface HexahedronCellType = 6"
    by (simp_all add: cell_type_defs nedge_def nsurface_def)
  ultimately show ?thesis using q h by simp
qed

text \<open>
  Claim C10. A cell type whose dimensionality is neither 2 nor 3 has face count 0; the
  point shape (dimensionality 0) and the line shape (dimensionality 1) are such types.
\<close>

theorem nface_zero_outside_2d_3d:
  "(ndim ct \<noteq> 2 \<and> ndim ct \<noteq> 3 \<longrightarrow> nface ct = 0)
   \<and> ndim PointCellType = 0 \<and> nface PointCellType = 0
   \<and> ndim LineCellType = 1 \<and> nface LineCellType = 0"
  by (simp add: nface_cases) (simp add: cell_type_defs ndim_def)

theorem nface_zero_outside_2d_3d_witness:
  "ndim LineCellType \<noteq> 2 \<and> ndim LineCellType \<noteq> 3 \<and> nedge LineCellType = 0
   \<and> nsurface LineCellType = 0 \<and> nface LineCellType = 0"
proof -
  have d: "ndim LineCellType \<noteq> 2 \<and> ndim LineCellType \<noteq> 3"
    by (simp add: cell_type_defs ndim_def)
  have "nface LineCellType = 0"
    using nface_zero_outside_2d_3d [of LineCellType] d by blast
  then show ?thesis
    using d by (simp add: cell_type_defs nedge_def nsurface_def)
qed

section \<open>Properties of the store\<close>

lemma length_place: "length (cells (place b h)) = Suc (length (cells h))"
  by (simp add: place_def)

lemma capacity_place: "capacity (place b h) = capacity h - m_nbytes b"
  by (simp add: place_def)

lemma buffer_at_place_new: "buffer_at (place b h) (length (cells h)) = Some b"
  by (simp add: buffer_at_def place_def)

lemma buffer_at_place_other:
  "a \<noteq> length (cells h) \<Longrightarrow> buffer_at (place b h) a = buffer_at h a"
  by (auto simp: buffer_at_def place_def nth_append)

lemma buffer_at_unused: "buffer_at h (length (cells h)) = None"
  by (simp add: buffer_at_def)

lemma buffer_at_live: "buffer_at h a = Some b \<Longrightarrow> a < length (cells h)"
  by (auto simp: buffer_at_def split: if_splits)

lemma buffer_at_released:
  "buffer_at (release (length (cells h)) (place b h)) a = buffer_at h a"
  by (auto simp: release_def buffer_at_place_new) (auto simp: buffer_at_def place_def nth_append nth_list_update)

lemma capacity_released:
  "m_nbytes b \<le> capacity h \<Longrightarrow> capacity (release (length (cells h)) (place b h)) = capacity h"
  by (simp add: release_def buffer_at_place_new) (simp add: place_def)

lemma elements_place_new:
  "elements (place b h) \<lparr>m_shape = shape, m_buffer = length (cells h)\<rparr> = Some (m_data b)"
  by (simp add: elements_def buffer_at_place_new)

lemma fill_place_new:
  "fill \<lparr>m_shape = shape, m_buffer = length (cells h)\<rparr> v (place \<lparr>m_nbytes = k, m_data = replicate n None\<rparr> h) =
     place \<lparr>m_nbytes = k, m_data = replicate n (Some v)\<rparr> h"
  by (simp add: fill_def buffer_at_place_new map_replicate_const) (simp add: place_def)

lemma fill_other: "a \<noteq> m_buffer arr \<Longrightarrow> buffer_at (fill arr v h) a = buffer_at h a"
  by (auto simp: fill_def buffer_at_def split: option.splits)

section \<open>Properties of the mesh constructor\<close>

text \<open>
  A mesh that has been constructed has the thirteen tables in the shapes below: twelve
  lead with the count of the entity they describe, the face type table \<open>fctpn\<close> leads with
  the cell count. The constructor succeeds whenever the store can satisfy the bytes of
  the thirteen tables.
\<close>

lemma SimpleArray_ctor_Inr:
  "SimpleArray_ctor s shape h = (Inr a, h1) \<longleftrightarrow>
     can_allocate h (nelem shape * s)
     \<and> a = \<lparr>m_shape = shape, m_buffer = length (cells h)\<rparr>
     \<and> h1 = place \<lparr>m_nbytes = nelem shape * s, m_data = replicate (nelem shape) None\<rparr> h"
  by (auto simp: SimpleArray_ctor_def allocate_def)

lemma SimpleArray_ctor_Inl:
  "SimpleArray_ctor s shape h = (Inl e, h1) \<longleftrightarrow>
     \<not> can_allocate h (nelem shape * s) \<and> e = AllocationError \<and> h1 = h"
  by (auto simp: SimpleArray_ctor_def allocate_def)

lemma init_member_Inr:
  "init_member s shape rest h = (Inr r, h') \<longleftrightarrow>
     (\<exists>a h1. SimpleArray_ctor s shape h = (Inr a, h1) \<and> rest a h1 = (Inr r, h'))"
  by (auto simp: init_member_def split: prod.splits sum.splits)

lemma mesh_table_shapes:
  assumes "StaticMeshBase_ctor sr si ND n f c b h = (Inr m, h')"
  shows "map (\<lambda>table. m_shape (table m))
     [m_ndcrd, m_fccnd, m_fcnml, m_fcara, m_clcnd, m_clvol, m_fctpn, m_cltpn, m_clgrp,
      m_fcnds, m_fccls, m_clnds, m_clfcs] =
   [[ucast n, ucast ND], [ucast f, ucast ND], [ucast f, ucast ND], [ucast f],
    [ucast c, ucast ND], [ucast c],
    [ucast c], [ucast c], [ucast c],
    [ucast f, 4], [ucast f, 2], [ucast c, 8], [ucast c, 6]]
   \<and> m_nnode m = n \<and> m_nface m = f \<and> m_ncell m = c \<and> m_nbound m = b
   \<and> m_ngstnode m = 0 \<and> m_ngstface m = 0 \<and> m_ngstcell m = 0"
  using assms unfolding StaticMeshBase_ctor_def init_member_Inr SimpleArray_ctor_Inr
  by (auto simp: FCMND_def FCMCL_def CLMND_def CLMFC_def FCNND_MAX_def FCNCL_MAX_def CLNND_MAX_def CLNFC_MAX_def)


lemmas mesh_constant_defs =
  FCMND_def FCMCL_def CLMND_def CLMFC_def FCNND_MAX_def FCNCL_MAX_def CLNND_MAX_def CLNFC_MAX_def

lemma init_member_step:
  assumes ca: "can_allocate h (nelem shape * s + R)"
    and rest: "\<And>a h1. can_allocate h1 R \<Longrightarrow> \<exists>r h'. rest a h1 = (Inr r, h')"
  shows "\<exists>r h'. init_member s shape rest h = (Inr r, h')"
proof -
  let ?a = "\<lparr>m_shape = shape, m_buffer = length (cells h)\<rparr>"
  let ?h1 = "place \<lparr>m_nbytes = nelem shape * s, m_data = replicate (nelem shape) None\<rparr> h"
  have "can_allocate h (nelem shape * s)"
    using ca by (simp add: can_allocate_def)
  then have c: "SimpleArray_ctor s shape h = (Inr ?a, ?h1)"
    by (simp add: SimpleArray_ctor_Inr)
  have "can_allocate ?h1 R"
    using ca by (simp add: can_allocate_def place_def) arith
  from rest [OF this] obtain r h' where "rest ?a ?h1 = (Inr r, h')"
    by blast
  with c have "init_member s shape rest h = (Inr r, h')"
    by (simp add: init_member_def)
  then show ?thesis
    by blast
qed

lemma init_member_last:
  assumes ca: "can_allocate h (nelem shape * s)"
    and rest: "\<And>a h1. \<exists>r h'. rest a h1 = (Inr r, h')"
  shows "\<exists>r h'. init_member s shape rest h = (Inr r, h')"
  using init_member_step [of h shape s 0 rest] ca rest by simp

lemma mesh_constructed:
  assumes "can_allocate h (mesh_bytes sr si ND n f c)"
  shows "\<exists>m h'. StaticMeshBase_ctor sr si ND n f c b h = (Inr m, h')"
  using assms unfolding StaticMeshBase_ctor_def mesh_bytes_def
  apply (elim init_member_step)
  apply (erule init_member_last)
  apply blast
  done

lemma mesh_bytes_example: "mesh_bytes sr si 2 (4 :: 32 word) 5 2 = 39 * sr + 64 * si"
  by (simp add: mesh_bytes_def nelem_def mesh_constant_defs)

lemma mesh_2d_example_constructed:
  assumes "can_allocate h (39 * sr + 64 * si)"
  shows "\<exists>m h'. StaticMesh2d sr si (4 :: 32 word) 5 2 3 h = (Inr m, h')"
  using assms mesh_constructed [of h sr si 2 "4 :: 32 word" 5 2 3]
  by (simp add: StaticMesh2d_def mesh_bytes_example)

lemmas mesh_accessor_defs =
  ndcrd_def fctpn_def cltpn_def fcnds_def clfcs_def ngstnode_def ngstface_def ngstcell_def

text \<open>
  Claim C1, evaluated on the code. The claim gives the face type table \<open>fctpn\<close> the shape
  \<open>[nface]\<close>. The constructor sizes it with the cell count: for the counts
  \<open>(nnode, nface, ncell, nbound) = (4, 5, 2, 3)\<close>, on a store that satisfies the
  construction (elements of 8 and 4 bytes), the mesh has \<open>nface = 5\<close>, its face area table
  \<open>fcara\<close> has shape \<open>[5]\<close>, and \<open>fctpn\<close> has shape \<open>[2]\<close>.
\<close>

theorem fctpn_sized_by_ncell:
  "\<exists>m h'. StaticMesh2d 8 4 (4 :: 32 word) 5 2 3 \<lparr>cells = [], capacity = 568\<rparr> = (Inr m, h')
     \<and> m_nface m = 5 \<and> m_shape (m_fcara m) = [5] \<and> m_shape (fctpn m) = [2]"
proof -
  have "can_allocate \<lparr>cells = [], capacity = 568\<rparr> (39 * 8 + 64 * 4)"
    by (simp add: can_allocate_def)
  from mesh_2d_example_constructed [OF this]
  obtain m h' where c: "StaticMesh2d 8 4 (4 :: 32 word) 5 2 3 \<lparr>cells = [], capacity = 568\<rparr> = (Inr m, h')"
    by blast
  from mesh_table_shapes [OF c [unfolded StaticMesh2d_def]]
  have "m_nface m = 5 \<and> m_shape (m_fcara m) = [5] \<and> m_shape (fctpn m) = [2]"
    by (simp add: fctpn_def)
  with c show ?thesis
    by blast
qed

text \<open>
  Claim C7. A two-dimensional mesh constructed with the counts
  \<open>(nnode, nface, ncell, nbound) = (4, 5, 2, 3)\<close> has \<open>ndcrd\<close> of shape \<open>[4, 2]\<close>,
  \<open>fcnds\<close> of shape \<open>[5, 4]\<close>, \<open>clfcs\<close> of shape \<open>[2, 6]\<close>, \<open>cltpn\<close> of shape \<open>[2]\<close>,
  and its three ghost counts read zero: this holds of every mesh the constructor returns,
  on any store, and the constructor returns one whenever the store can satisfy the 39
  real and 64 integer elements of the tables. The counts are taken at 32 bits.
\<close>

theorem mesh_2d_example_shapes:
  "(can_allocate h (39 * sizeof_real + 64 * sizeof_int) \<longrightarrow>
      (\<exists>m h'. StaticMesh2d sizeof_real sizeof_int (4 :: 32 word) 5 2 3 h = (Inr m, h')
         \<and> m_shape (ndcrd m) = [4, 2] \<and> m_shape (fcnds m) = [5, 4]
         \<and> m_shape (clfcs m) = [2, 6] \<and> m_shape (cltpn m) = [2]
         \<and> ngstnode m = 0 \<and> ngstface m = 0 \<and> ngstcell m = 0))
   \<and> (\<forall>m h'. StaticMesh2d sizeof_real sizeof_int (4 :: 32 word) 5 2 3 h = (Inr m, h') \<longrightarrow>
         m_shape (ndcrd m) = [4, 2] \<and> m_shape (fcnds m) = [5, 4]
         \<and> m_shape (clfcs m) = [2, 6] \<and> m_shape (cltpn m) = [2]
         \<and> ngstnode m = 0 \<and> ngstface m = 0 \<and> ngstcell m = 0)"
proof -
  have partial: "m_shape (ndcrd m) = [4, 2] \<and> m_shape (fcnds m) = [5, 4]
         \<and> m_shape (clfcs m) = [2, 6] \<and> m_shape (cltpn m) = [2]
         \<and> ngstnode m = 0 \<and> ngstface m = 0 \<and> ngstcell m = 0"
    if "StaticMesh2d sizeof_real sizeof_int (4 :: 32 word) 5 2 3 h = (Inr m, h')" for m h'
    using mesh_table_shapes [OF that [unfolded StaticMesh2d_def]]
    by (simp add: mesh_accessor_defs)
  from partial mesh_2d_example_constructed [of h sizeof_real sizeof_int]
  show ?thesis
    by blast
qed

theorem mesh_2d_example_shapes_witness:
  "can_allocate \<lparr>cells = [], capacity = 568\<rparr> (39 * 8 + 64 * 4)
   \<and> (\<exists>m h'. StaticMesh2d 8 4 (4 :: 32 word) 5 2 3 \<lparr>cells = [], capacity = 568\<rparr> = (Inr m, h')
         \<and> m_shape (ndcrd m) = [4, 2] \<and> m_shape (fcnds m) = [5, 4]
         \<and> m_shape (clfcs m) = [2, 6] \<and> m_shape (cltpn m) = [2]
         \<and> ngstnode m = 0 \<and> ngstface m = 0 \<and> ngstcell m = 0)"
proof -
  have ca: "can_allocate \<lparr>cells = [], capacity = 568\<rparr> (39 * 8 + 64 * 4)"
    by (simp add: can_allocate_def)
  with mesh_2d_example_shapes [of "\<lparr>cells = [], capacity = 568\<rparr>" 8 4] show ?thesis
    by blast
qed

section \<open>Properties of shape parsing\<close>

text \<open>
  Claim C6. \<open>make_shape\<close> tries the scalar conversion first and converts the object as a
  sequence only when the scalar conversion is refused; a scalar count \<open>k\<close> and the
  one-element sequence \<open>[k]\<close> both give the rank-1 shape \<open>[k]\<close>, and for every Python
  integer \<open>n\<close> the results for \<open>n\<close> and \<open>[n]\<close> are the same.
\<close>

theorem make_shape_scalar_first:
  "make_shape (PyInt (uint k)) = Inr [k]
   \<and> make_shape (PyList [PyInt (uint k)]) = Inr [k]
   \<and> make_shape (PyInt n) = make_shape (PyList [PyInt n])
   \<and> (cast_unsigned x = Some c \<longrightarrow> make_shape x = Inr [c])
   \<and> (cast_unsigned x = (None :: size_t option) \<longrightarrow>
        make_shape x = (case cast_vector x of Some shape \<Rightarrow> Inr shape | None \<Rightarrow> Inl cast_error))"
proof -
  have "uint k < 2 ^ 64"
    using uint_bounded [of k] by simp
  then show ?thesis
    by (simp add: make_shape_def)
qed

theorem make_shape_scalar_first_witness:
  "cast_unsigned (PyInt 5) = Some (5 :: size_t)
   \<and> make_shape (PyInt 5) = Inr [5]
   \<and> make_shape (PyList [PyInt 5]) = Inr [5]
   \<and> cast_unsigned (PyList [PyInt 2, PyInt 3]) = (None :: size_t option)
   \<and> make_shape (PyList [PyInt 2, PyInt 3]) = Inr [2, 3]"
proof -
  have c5: "cast_unsigned (PyInt 5) = Some (5 :: size_t)"
    by simp
  have cl: "cast_unsigned (PyList [PyInt 2, PyInt 3]) = (None :: size_t option)"
    by simp
  have "make_shape (PyInt 5) = Inr [5]"
    using make_shape_scalar_first [of 0 0 "PyInt 5" 5] c5 by blast
  moreover have "make_shape (PyList [PyInt 5]) = Inr [5]"
    using make_shape_scalar_first [of 5 0 "PyInt 5" 5] by simp
  moreover have "make_shape (PyList [PyInt 2, PyInt 3]) =
      (case cast_vector (PyList [PyInt 2, PyInt 3]) of
         Some shape \<Rightarrow> Inr shape | None \<Rightarrow> Inl cast_error)"
    using make_shape_scalar_first [of 0 0 "PyList [PyInt 2, PyInt 3]" 0] cl by blast
  then have "make_shape (PyList [PyInt 2, PyInt 3]) = Inr [2, 3]"
    by simp
  ultimately show ?thesis
    using c5 cl by simp
qed

section \<open>Properties of the value-fill constructor\<close>

lemma dtype_names_cases:
  "map_of dtype_names nm = Some D \<Longrightarrow>
   D = Bool \<or> D = Int8 \<or> D = Int16 \<or> D = Int32 \<or> D = Int64 \<or>
   D = Uint8 \<or> D = Uint16 \<or> D = Uint32 \<or> D = Uint64 \<or> D = Float32 \<or> D = Float64"
  by (auto simp: dtype_names_def split: if_splits)

lemma dtype_names_map_of: "(nm, D) \<in> set dtype_names \<Longrightarrow> map_of dtype_names nm = Some D"
  by (rule map_of_is_SomeI) (simp_all add: dtype_names_def)

lemma ctor_ok:
  "map_of dtype_names nm = Some D \<Longrightarrow> can_allocate h (nelem shape * itemsize D) \<Longrightarrow>
   SimpleArrayPlex_ctor shape nm h = (Inr (new_plex D shape h), place (new_buffer D shape None) h)"
  by (simp add: SimpleArrayPlex_ctor_def SimpleArray_ctor_def allocate_def new_plex_def new_buffer_def)

lemma ctor_fail:
  "map_of dtype_names nm = Some D \<Longrightarrow> \<not> can_allocate h (nelem shape * itemsize D) \<Longrightarrow>
   SimpleArrayPlex_ctor shape nm h = (Inl AllocationError, h)"
  by (simp add: SimpleArrayPlex_ctor_def SimpleArray_ctor_def allocate_def)

lemma throw_after_new:
  "throw_after (new_plex D shape h) e (place b h) = (Inl e, release (length (cells h)) (place b h))"
  by (simp add: throw_after_def SimpleArrayPlex_dtor_def SimpleArray_dtor_def new_plex_def)

lemma fill_with_Some:
  "fill_with (new_plex D shape h) (Some v) (place (new_buffer D shape None) h) =
   (Inr (new_plex D shape h), place (new_buffer D shape (Some v)) h)"
  by (simp add: fill_with_def new_plex_def new_buffer_def fill_place_new)

lemma fill_with_None:
  "fill_with (new_plex D shape h) None (place b h) =
     (Inl cast_error, release (length (cells h)) (place b h))"
  by (simp add: fill_with_def throw_after_new)

lemma expect_int_mismatch:
  "\<not> isinstance_int v \<Longrightarrow>
   expect_int (new_plex D shape h) v c (place b h) =
   (Inl (runtime_error ''Data type mismatch, expected Python int''),
    release (length (cells h)) (place b h))"
  by (simp add: expect_int_def throw_after_new)

lemma expect_int_Some:
  "isinstance_int v \<Longrightarrow>
   expect_int (new_plex D shape h) v (Some e) (place (new_buffer D shape None) h) =
   (Inr (new_plex D shape h), place (new_buffer D shape (Some e)) h)"
  by (simp add: expect_int_def fill_with_Some)

lemma expect_int_None:
  "isinstance_int v \<Longrightarrow>
   expect_int (new_plex D shape h) v None (place b h) =
     (Inl cast_error, release (length (cells h)) (place b h))"
  by (simp add: expect_int_def fill_with_None)

text \<open>
  The array is allocated before the switch runs: a construction that cannot be satisfied
  ends the constructor with the allocation error, whatever the value; otherwise the array
  stands at the next free address and the switch runs on the resolved tag.
\<close>

lemma init_alloc_fail:
  assumes "make_shape S = Inr shape" "map_of dtype_names nm = Some D"
    and "\<not> can_allocate h (nelem shape * itemsize D)"
  shows "init_array_plex_with_value f S v nm h = (Inl AllocationError, h)"
  using assms by (simp add: init_array_plex_with_value_def ctor_fail)

lemma init_unfold:
  assumes "make_shape S = Inr shape" "map_of dtype_names nm = Some D"
    and "can_allocate h (nelem shape * itemsize D)"
  shows "init_array_plex_with_value f S v nm h =
    (let p = new_plex D shape h;
         h1 = place (new_buffer D shape None) h in
     case D of
        Bool \<Rightarrow>
          (if \<not> isinstance_bool v
           then throw_after p (runtime_error ''Data type mismatch, expected Python bool'') h1
           else fill_with p (map_option VBool (cast_bool v)) h1)
      | Int8 \<Rightarrow> expect_int p v (map_option VInt8 (cast_signed v)) h1
      | Int16 \<Rightarrow> expect_int p v (map_option VInt16 (cast_signed v)) h1
      | Int32 \<Rightarrow> expect_int p v (map_option VInt32 (cast_signed v)) h1
      | Int64 \<Rightarrow> expect_int p v (map_option VInt64 (cast_signed v)) h1
      | Uint8 \<Rightarrow> expect_int p v (map_option VUint8 (cast_unsigned v)) h1
      | Uint16 \<Rightarrow> expect_int p v (map_option VUint16 (cast_unsigned v)) h1
      | Uint32 \<Rightarrow> expect_int p v (map_option VUint32 (cast_signed v)) h1
      | Uint64 \<Rightarrow> expect_int p v (map_option VUint64 (cast_signed v)) h1
      | Float32 \<Rightarrow>
          (if \<not> isinstance_float v
           then throw_after p (runtime_error ''Data type mismatch, expected Python float'') h1
           else fill_with p (map_option VFloat32 (cast_float f v)) h1)
      | Float64 \<Rightarrow>
          (if \<not> isinstance_float v
           then throw_after p (runtime_error ''Data type mismatch, expected Python float'') h1
           else fill_with p (map_option VFloat64 (cast_double v)) h1)
      | Undefined \<Rightarrow> throw_after p (runtime_error ''Unsupported datatype'') h1)"
  using assms by (simp add: init_array_plex_with_value_def ctor_ok data_type_def Let_def new_plex_def)

lemma unwound:
  assumes "can_allocate h (nelem shape * itemsize D)"
  shows "(\<forall>a. buffer_at (release (length (cells h)) (place (new_buffer D shape x) h)) a = buffer_at h a)
     \<and> capacity (release (length (cells h)) (place (new_buffer D shape x) h)) = capacity h"
  using assms by (simp add: buffer_at_released capacity_released new_buffer_def can_allocate_def)

lemma store16: "can_allocate \<lparr>cells = [], capacity = 16\<rparr> (nelem [2] * itemsize Int8)"
  by (simp add: can_allocate_def nelem_def)

lemma S2: "make_shape (PyList [PyInt 2]) = Inr [2]"
  by (simp add: make_shape_def)

lemma two: "replicate 2 x = [x, x]"
  by (simp add: numeral_2_eq_2)

lemma nelem_2: "nelem [2] = 2"
  by (simp add: nelem_def)

text \<open>
  The conversions of an integer and of a boolean that the integer cases of the switch
  perform, and the array they fill.
\<close>

lemma sint_in_range:
  "- (2 ^ (LENGTH('a) - 1)) \<le> n \<Longrightarrow> n < 2 ^ (LENGTH('a) - 1) \<Longrightarrow>
   sint (word_of_int n :: 'a::len word) = n"
  by (simp add: sint_sbintrunc' signed_take_bit_int_eq_self)

lemma uint_in_range:
  "0 \<le> n \<Longrightarrow> n < 2 ^ LENGTH('a) \<Longrightarrow> uint (word_of_int n :: 'a::len word) = n"
  by (simp add: uint_word_of_int take_bit_int_eq_self)

lemma narrowed_to_type: "narrowed_to D n = Some e \<Longrightarrow> scalar_type e = D"
  by (cases D) auto

lemma narrowed_to_value:
  "representable D n \<Longrightarrow> narrowed_to D n = Some e \<Longrightarrow> int_value e = Some n"
  by (cases D) (auto simp: sint_in_range uint_in_range)

lemma narrowed_to_defined: "integer_dtype D \<Longrightarrow> \<exists>e. narrowed_to D n = Some e"
  by (auto simp: integer_dtype_def)

lemma init_int_in_range:
  assumes nm: "map_of dtype_names nm = Some D"
    and S: "make_shape S = Inr shape"
    and ca: "can_allocate h (nelem shape * itemsize D)"
    and D: "D \<in> {Int8, Int16, Int32, Int64, Uint8, Uint16}"
    and r: "representable D n"
    and e: "narrowed_to D n = Some e"
  shows "init_array_plex_with_value f S (PyInt n) nm h =
     (Inr (new_plex D shape h), place (new_buffer D shape (Some e)) h)"
  using D r e unfolding init_unfold [OF S nm ca] Let_def
  by (elim insertE emptyE) (auto simp: expect_int_Some)

lemma init_int_out_of_range:
  assumes nm: "map_of dtype_names nm = Some D"
    and S: "make_shape S = Inr shape"
    and ca: "can_allocate h (nelem shape * itemsize D)"
    and D: "D \<in> {Int8, Int16, Int32, Int64, Uint8, Uint16}"
    and r: "\<not> representable D n"
  shows "init_array_plex_with_value f S (PyInt n) nm h =
     (Inl cast_error, release (length (cells h)) (place (new_buffer D shape None) h))"
  using D r unfolding init_unfold [OF S nm ca] Let_def
  by (elim insertE emptyE) (auto simp: expect_int_None)

lemma init_bool_as_int:
  assumes nm: "map_of dtype_names nm = Some D"
    and S: "make_shape S = Inr shape"
    and ca: "can_allocate h (nelem shape * itemsize D)"
    and D: "integer_dtype D"
    and e: "narrowed_to D (if v then 1 else 0) = Some e"
  shows "init_array_plex_with_value f S (PyBool v) nm h =
     (Inr (new_plex D shape h), place (new_buffer D shape (Some e)) h)"
  using D e unfolding init_unfold [OF S nm ca] Let_def integer_dtype_def
  by (elim insertE emptyE) (auto simp: expect_int_Some split: if_splits)

lemma filledI:
  assumes "r = (Inr (new_plex D shape h), place (new_buffer D shape (Some e)) h)"
    and "scalar_type e = D" and "int_value e = Some k"
  shows "\<exists>plex h' b. r = (Inr plex, h')
           \<and> data_type plex = D \<and> m_shape (m_instance plex) = shape
           \<and> elements h' (m_instance plex) = Some b \<and> length b = nelem shape
           \<and> (\<forall>x \<in> set b. \<exists>e. x = Some e \<and> scalar_type e = D \<and> int_value e = Some k)"
  using assms by (simp add: new_plex_def new_buffer_def elements_place_new data_type_def)

text \<open>
  Claim C2 as stated fails on the code. By the specification a boolean value is of the
  Bool family only, so \<open>True\<close> given for \<open>int8\<close> is a mismatch of kind and family; the
  check of the \<open>int8\<close> case is the integer instance check, which \<open>True\<close> passes, and the
  constructor returns an array filled with 1.
\<close>

theorem bool_for_int8_accepted:
  "kind_of (PyBool True) = Some BoolFamily
   \<and> family_of Int8 = Some IntegerFamily
   \<and> fst (init_array_plex_with_value ieee_double_to_float (PyList [PyInt 2]) (PyBool True) ''int8''
        \<lparr>cells = [], capacity = 16\<rparr>) =
       Inr \<lparr>m_data_type = Int8, m_instance = \<lparr>m_shape = [2], m_buffer = 0\<rparr>\<rparr>
   \<and> elements
        (snd (init_array_plex_with_value ieee_double_to_float (PyList [PyInt 2]) (PyBool True) ''int8''
           \<lparr>cells = [], capacity = 16\<rparr>))
        \<lparr>m_shape = [2], m_buffer = 0\<rparr> = Some [Some (VInt8 1), Some (VInt8 1)]"
proof -
  have nm: "map_of dtype_names ''int8'' = Some Int8"
    by (simp add: dtype_names_def)
  have e: "narrowed_to Int8 (if True then 1 else 0) = Some (VInt8 1)"
    by simp
  have D: "integer_dtype Int8"
    by (simp add: integer_dtype_def)
  note r = init_bool_as_int [OF nm S2 store16 D e, of ieee_double_to_float]
  show ?thesis
    by (simp add: r new_plex_def new_buffer_def elements_def buffer_at_def place_def nelem_2 two)
qed

text \<open>
  Claim C2, amended. For a shape that parses, a dtype of the enumeration and a value whose
  kind is not the family of the dtype, other than a boolean value given for an integer
  dtype: when the array can be allocated, the constructor fails with the runtime error
  whose message starts with ``Data type mismatch'', returns no array, and every address of
  the store and the capacity of the allocator are after the failure what they were before
  the call; when the array cannot be allocated, the constructor fails with the allocation
  error and the store is unchanged.
\<close>

theorem mismatch_rejected:
  assumes nm: "map_of dtype_names nm = Some D"
    and S: "make_shape S = Inr shape"
    and fam: "family_of D = Some fam"
    and mm: "kind_of v \<noteq> Some fam"
    and nb: "\<not> (kind_of v = Some BoolFamily \<and> fam = IntegerFamily)"
  shows "(can_allocate h (nelem shape * itemsize D) \<longrightarrow>
           (\<exists>msg h'. init_array_plex_with_value f S v nm h = (Inl (runtime_error msg), h')
              \<and> take 18 msg = ''Data type mismatch''
              \<and> (\<forall>a. buffer_at h' a = buffer_at h a) \<and> capacity h' = capacity h))
       \<and> (\<not> can_allocate h (nelem shape * itemsize D) \<longrightarrow>
           init_array_plex_with_value f S v nm h = (Inl AllocationError, h))"
proof (intro conjI impI)
  assume ca: "can_allocate h (nelem shape * itemsize D)"
  show "\<exists>msg h'. init_array_plex_with_value f S v nm h = (Inl (runtime_error msg), h')
              \<and> take 18 msg = ''Data type mismatch''
              \<and> (\<forall>a. buffer_at h' a = buffer_at h a) \<and> capacity h' = capacity h"
    using fam mm nb ca dtype_names_cases [OF nm] unfolding init_unfold [OF S nm ca] Let_def
    by (cases v) (auto simp: throw_after_new expect_int_mismatch unwound)
next
  assume "\<not> can_allocate h (nelem shape * itemsize D)"
  then show "init_array_plex_with_value f S v nm h = (Inl AllocationError, h)"
    by (rule init_alloc_fail [OF S nm])
qed

theorem mismatch_rejected_witness:
  "map_of dtype_names ''bool'' = Some Bool
   \<and> map_of dtype_names ''int32'' = Some Int32
   \<and> make_shape (PyList [PyInt 2]) = Inr [2]
   \<and> family_of Bool = Some BoolFamily \<and> kind_of (PyInt 1) \<noteq> Some BoolFamily
   \<and> family_of Int32 = Some IntegerFamily \<and> kind_of (PyFloat double_2_5) \<noteq> Some IntegerFamily
   \<and> can_allocate \<lparr>cells = [], capacity = 16\<rparr> (nelem [2] * itemsize Bool)
   \<and> (\<exists>msg h'. init_array_plex_with_value ieee_double_to_float (PyList [PyInt 2]) (PyInt 1)
          ''bool'' \<lparr>cells = [], capacity = 16\<rparr> = (Inl (runtime_error msg), h')
        \<and> take 18 msg = ''Data type mismatch''
        \<and> (\<forall>a. buffer_at h' a = buffer_at \<lparr>cells = [], capacity = 16\<rparr> a)
        \<and> capacity h' = capacity \<lparr>cells = [], capacity = 16\<rparr>)
   \<and> can_allocate \<lparr>cells = [], capacity = 16\<rparr> (nelem [2] * itemsize Int32)
   \<and> (\<exists>msg h'. init_array_plex_with_value ieee_double_to_float (PyList [PyInt 2])
          (PyFloat double_2_5) ''int32'' \<lparr>cells = [], capacity = 16\<rparr> =
          (Inl (runtime_error msg), h')
        \<and> take 18 msg = ''Data type mismatch''
        \<and> (\<forall>a. buffer_at h' a = buffer_at \<lparr>cells = [], capacity = 16\<rparr> a)
        \<and> capacity h' = capacity \<lparr>cells = [], capacity = 16\<rparr>)
   \<and> \<not> can_allocate \<lparr>cells = [], capacity = 4\<rparr> (nelem [2] * itemsize Int32)
   \<and> init_array_plex_with_value ieee_double_to_float (PyList [PyInt 2])
          (PyFloat double_2_5) ''int32'' \<lparr>cells = [], capacity = 4\<rparr> =
        (Inl AllocationError, \<lparr>cells = [], capacity = 4\<rparr>)"
proof -
  let ?h = "\<lparr>cells = [], capacity = 16\<rparr>"
  let ?h4 = "\<lparr>cells = [], capacity = 4\<rparr>"
  have b: "map_of dtype_names ''bool'' = Some Bool"
    and i: "map_of dtype_names ''int32'' = Some Int32"
    by (simp_all add: dtype_names_def)
  have fb: "family_of Bool = Some BoolFamily" and kb: "kind_of (PyInt 1) \<noteq> Some BoolFamily"
    and nb: "\<not> (kind_of (PyInt 1) = Some BoolFamily \<and> BoolFamily = IntegerFamily)"
    and fi: "family_of Int32 = Some IntegerFamily"
    and ki: "kind_of (PyFloat double_2_5) \<noteq> Some IntegerFamily"
    and ni: "\<not> (kind_of (PyFloat double_2_5) = Some BoolFamily \<and> IntegerFamily = IntegerFamily)"
    by simp_all
  have cb: "can_allocate ?h (nelem [2] * itemsize Bool)"
    and ci: "can_allocate ?h (nelem [2] * itemsize Int32)"
    and c4: "\<not> can_allocate ?h4 (nelem [2] * itemsize Int32)"
    by (simp_all add: can_allocate_def nelem_2)
  note tb = mismatch_rejected [OF b S2 fb kb nb, of ?h ieee_double_to_float]
  note ti = mismatch_rejected [OF i S2 fi ki ni, of _ ieee_double_to_float]
  from tb cb
  have rb: "\<exists>msg h'. init_array_plex_with_value ieee_double_to_float (PyList [PyInt 2]) (PyInt 1)
          ''bool'' ?h = (Inl (runtime_error msg), h')
        \<and> take 18 msg = ''Data type mismatch''
        \<and> (\<forall>a. buffer_at h' a = buffer_at ?h a) \<and> capacity h' = capacity ?h"
    by blast
  from ti [of ?h] ci
  have ri: "\<exists>msg h'. init_array_plex_with_value ieee_double_to_float (PyList [PyInt 2])
          (PyFloat double_2_5) ''int32'' ?h = (Inl (runtime_error msg), h')
        \<and> take 18 msg = ''Data type mismatch''
        \<and> (\<forall>a. buffer_at h' a = buffer_at ?h a) \<and> capacity h' = capacity ?h"
    by blast
  from ti [of ?h4] c4
  have r4: "init_array_plex_with_value ieee_double_to_float (PyList [PyInt 2])
          (PyFloat double_2_5) ''int32'' ?h4 = (Inl AllocationError, ?h4)"
    by blast
  show ?thesis
    using b i S2 fb kb fi ki cb rb ci ri c4 r4 by (intro conjI)
qed

text \<open>
  Claim C3 as stated fails on the code. The claim narrows an out-of-range value to the
  width of the dtype: 300 for \<open>int8\<close> would become 44. The conversion
  \<^verbatim>\<open>value.cast<int8_t>()\<close> refuses 300 instead, and the constructor ends with a cast
  error and no array.
\<close>

theorem int8_300_not_narrowed:
  "narrowed_to Int8 300 = Some (VInt8 44)
   \<and> fst (init_array_plex_with_value ieee_double_to_float (PyList [PyInt 2]) (PyInt 300) ''int8''
        \<lparr>cells = [], capacity = 16\<rparr>) = Inl cast_error"
proof -
  have nm: "map_of dtype_names ''int8'' = Some Int8"
    by (simp add: dtype_names_def)
  have D: "Int8 \<in> {Int8, Int16, Int32, Int64, Uint8, Uint16}"
    by simp
  have r: "\<not> representable Int8 300"
    by simp
  show ?thesis
    by (simp add: init_int_out_of_range [OF nm S2 store16 D r, of ieee_double_to_float])
qed

text \<open>
  Claim C3, amended. For the dtypes \<open>int8\<close>, \<open>int16\<close>, \<open>int32\<close>, \<open>int64\<close>, \<open>uint8\<close> and
  \<open>uint16\<close>, a shape that parses and a Python integer \<open>n\<close>, on a store that can satisfy
  the array: when \<open>n\<close> is representable in the dtype, the constructor returns an array
  of that dtype and shape whose buffer has \<open>product(shape)\<close> elements, each of the dtype
  and denoting \<open>n\<close> itself; when \<open>n\<close> is not representable, the constructor fails with a
  cast error, returns no array, and the store is after the failure what it was before the
  call. On a store that cannot satisfy the array the constructor fails with the allocation
  error.
\<close>

theorem integer_fill_in_range:
  assumes nm: "map_of dtype_names nm = Some D"
    and S: "make_shape S = Inr shape"
    and D: "D \<in> {Int8, Int16, Int32, Int64, Uint8, Uint16}"
  shows "(can_allocate h (nelem shape * itemsize D) \<and> representable D n \<longrightarrow>
           (\<exists>plex h' b. init_array_plex_with_value f S (PyInt n) nm h = (Inr plex, h')
              \<and> data_type plex = D \<and> m_shape (m_instance plex) = shape
              \<and> elements h' (m_instance plex) = Some b \<and> length b = nelem shape
              \<and> (\<forall>x \<in> set b. \<exists>e. x = Some e \<and> scalar_type e = D \<and> int_value e = Some n)))
       \<and> (can_allocate h (nelem shape * itemsize D) \<and> \<not> representable D n \<longrightarrow>
           (\<exists>h'. init_array_plex_with_value f S (PyInt n) nm h = (Inl cast_error, h')
              \<and> (\<forall>a. buffer_at h' a = buffer_at h a) \<and> capacity h' = capacity h))
       \<and> (\<not> can_allocate h (nelem shape * itemsize D) \<longrightarrow>
           init_array_plex_with_value f S (PyInt n) nm h = (Inl AllocationError, h))"
proof (intro conjI impI)
  assume "can_allocate h (nelem shape * itemsize D) \<and> representable D n"
  then have ca: "can_allocate h (nelem shape * itemsize D)" and r: "representable D n"
    by simp_all
  from D obtain e where e: "narrowed_to D n = Some e"
    using narrowed_to_defined [of D n] by (auto simp: integer_dtype_def)
  show "\<exists>plex h' b. init_array_plex_with_value f S (PyInt n) nm h = (Inr plex, h')
              \<and> data_type plex = D \<and> m_shape (m_instance plex) = shape
              \<and> elements h' (m_instance plex) = Some b \<and> length b = nelem shape
              \<and> (\<forall>x \<in> set b. \<exists>e. x = Some e \<and> scalar_type e = D \<and> int_value e = Some n)"
    by (rule filledI [OF init_int_in_range [OF nm S ca D r e] narrowed_to_type [OF e]
          narrowed_to_value [OF r e]])
next
  assume "can_allocate h (nelem shape * itemsize D) \<and> \<not> representable D n"
  then have ca: "can_allocate h (nelem shape * itemsize D)" and r: "\<not> representable D n"
    by simp_all
  show "\<exists>h'. init_array_plex_with_value f S (PyInt n) nm h = (Inl cast_error, h')
              \<and> (\<forall>a. buffer_at h' a = buffer_at h a) \<and> capacity h' = capacity h"
    using unwound [OF ca] by (simp add: init_int_out_of_range [OF nm S ca D r])
next
  assume "\<not> can_allocate h (nelem shape * itemsize D)"
  then show "init_array_plex_with_value f S (PyInt n) nm h = (Inl AllocationError, h)"
    by (rule init_alloc_fail [OF S nm])
qed

theorem integer_fill_in_range_witness:
  "map_of dtype_names ''int8'' = Some Int8
   \<and> make_shape (PyList [PyInt 2]) = Inr [2]
   \<and> Int8 \<in> {Int8, Int16, Int32, Int64, Uint8, Uint16}
   \<and> can_allocate \<lparr>cells = [], capacity = 16\<rparr> (nelem [2] * itemsize Int8)
   \<and> representable Int8 100
   \<and> (\<exists>plex h' b.
        init_array_plex_with_value ieee_double_to_float (PyList [PyInt 2]) (PyInt 100) ''int8''
          \<lparr>cells = [], capacity = 16\<rparr> = (Inr plex, h')
        \<and> data_type plex = Int8 \<and> m_shape (m_instance plex) = [2]
        \<and> elements h' (m_instance plex) = Some b \<and> length b = nelem [2]
        \<and> (\<forall>x \<in> set b. \<exists>e. x = Some e \<and> scalar_type e = Int8 \<and> int_value e = Some 100))
   \<and> \<not> representable Int8 300
   \<and> (\<exists>h'. init_array_plex_with_value ieee_double_to_float (PyList [PyInt 2]) (PyInt 300) ''int8''
          \<lparr>cells = [], capacity = 16\<rparr> = (Inl cast_error, h')
        \<and> (\<forall>a. buffer_at h' a = buffer_at \<lparr>cells = [], capacity = 16\<rparr> a)
        \<and> capacity h' = capacity \<lparr>cells = [], capacity = 16\<rparr>)
   \<and> \<not> can_allocate \<lparr>cells = [], capacity = 1\<rparr> (nelem [2] * itemsize Int8)
   \<and> init_array_plex_with_value ieee_double_to_float (PyList [PyInt 2]) (PyInt 100) ''int8''
          \<lparr>cells = [], capacity = 1\<rparr> = (Inl AllocationError, \<lparr>cells = [], capacity = 1\<rparr>)"
proof -
  let ?h = "\<lparr>cells = [], capacity = 16\<rparr>"
  let ?h1 = "\<lparr>cells = [], capacity = 1\<rparr>"
  have nm: "map_of dtype_names ''int8'' = Some Int8"
    by (simp add: dtype_names_def)
  have D: "Int8 \<in> {Int8, Int16, Int32, Int64, Uint8, Uint16}"
    by simp
  have r: "representable Int8 100" and nr: "\<not> representable Int8 300"
    by simp_all
  have c1: "\<not> can_allocate ?h1 (nelem [2] * itemsize Int8)"
    by (simp add: can_allocate_def nelem_2)
  note t = integer_fill_in_range [OF nm S2 D, where f = ieee_double_to_float]
  from t [where n = 100 and h = ?h] store16 r
  have ok: "\<exists>plex h' b.
        init_array_plex_with_value ieee_double_to_float (PyList [PyInt 2]) (PyInt 100) ''int8''
          ?h = (Inr plex, h')
        \<and> data_type plex = Int8 \<and> m_shape (m_instance plex) = [2]
        \<and> elements h' (m_instance plex) = Some b \<and> length b = nelem [2]
        \<and> (\<forall>x \<in> set b. \<exists>e. x = Some e \<and> scalar_type e = Int8 \<and> int_value e = Some 100)"
    by blast
  from t [where n = 300 and h = ?h] store16 nr
  have bad: "\<exists>h'. init_array_plex_with_value ieee_double_to_float (PyList [PyInt 2]) (PyInt 300)
          ''int8'' ?h = (Inl cast_error, h')
        \<and> (\<forall>a. buffer_at h' a = buffer_at ?h a) \<and> capacity h' = capacity ?h"
    by blast
  from t [where n = 100 and h = ?h1] c1
  have none: "init_array_plex_with_value ieee_double_to_float (PyList [PyInt 2]) (PyInt 100) ''int8''
          ?h1 = (Inl AllocationError, ?h1)"
    by blast
  show ?thesis
    using nm S2 D store16 r ok nr bad c1 none by (intro conjI)
qed

text \<open>
  The cases for \<open>uint32\<close> and \<open>uint64\<close> convert with the signed caster of the same width:
  a value of the upper half of the unsigned range is refused, and a negative value is
  accepted and wraps. The case for \<open>uint16\<close>, which converts with its own caster, accepts
  the upper half of its range and refuses a negative value.
\<close>

lemma store16_any:
  "can_allocate \<lparr>cells = [], capacity = 16\<rparr> (nelem [2] * itemsize Uint32)"
  "can_allocate \<lparr>cells = [], capacity = 16\<rparr> (nelem [2] * itemsize Uint16)"
  by (simp_all add: can_allocate_def nelem_2)

lemma uint32_upper_half_refused:
  "fst (init_array_plex_with_value ieee_double_to_float (PyList [PyInt 2]) (PyInt 3000000000)
     ''uint32'' \<lparr>cells = [], capacity = 16\<rparr>) = Inl cast_error"
proof -
  have nm: "map_of dtype_names ''uint32'' = Some Uint32"
    by (simp add: dtype_names_def)
  show ?thesis
    unfolding init_unfold [OF S2 nm store16_any(1)] Let_def by (simp add: expect_int_None)
qed

lemma uint32_negative_wraps:
  "fst (init_array_plex_with_value ieee_double_to_float (PyList [PyInt 2]) (PyInt (- 1))
     ''uint32'' \<lparr>cells = [], capacity = 16\<rparr>) =
     Inr \<lparr>m_data_type = Uint32, m_instance = \<lparr>m_shape = [2], m_buffer = 0\<rparr>\<rparr>
   \<and> elements
       (snd (init_array_plex_with_value ieee_double_to_float (PyList [PyInt 2]) (PyInt (- 1))
          ''uint32'' \<lparr>cells = [], capacity = 16\<rparr>))
       \<lparr>m_shape = [2], m_buffer = 0\<rparr> = Some [Some (VUint32 (- 1)), Some (VUint32 (- 1))]
   \<and> int_value (VUint32 (- 1)) = Some 4294967295"
proof -
  have nm: "map_of dtype_names ''uint32'' = Some Uint32"
    by (simp add: dtype_names_def)
  have u: "uint (- 1 :: 32 word) = 4294967295"
    by (simp add: unsigned_minus_1_eq_mask mask_eq_exp_minus_1)
  show ?thesis
    unfolding init_unfold [OF S2 nm store16_any(1)] Let_def
    by (simp add: expect_int_Some u)
      (simp add: new_plex_def new_buffer_def elements_def buffer_at_def place_def nelem_2 two)
qed

lemma uint16_upper_half_accepted:
  "fst (init_array_plex_with_value ieee_double_to_float (PyList [PyInt 2]) (PyInt 40000)
     ''uint16'' \<lparr>cells = [], capacity = 16\<rparr>) =
     Inr \<lparr>m_data_type = Uint16, m_instance = \<lparr>m_shape = [2], m_buffer = 0\<rparr>\<rparr>
   \<and> elements
       (snd (init_array_plex_with_value ieee_double_to_float (PyList [PyInt 2]) (PyInt 40000)
          ''uint16'' \<lparr>cells = [], capacity = 16\<rparr>))
       \<lparr>m_shape = [2], m_buffer = 0\<rparr> = Some [Some (VUint16 40000), Some (VUint16 40000)]"
proof -
  have nm: "map_of dtype_names ''uint16'' = Some Uint16"
    by (simp add: dtype_names_def)
  show ?thesis
    unfolding init_unfold [OF S2 nm store16_any(2)] Let_def
    by (simp add: expect_int_Some)
      (simp add: new_plex_def new_buffer_def elements_def buffer_at_def place_def nelem_2 two)
qed

lemma uint16_negative_refused:
  "fst (init_array_plex_with_value ieee_double_to_float (PyList [PyInt 2]) (PyInt (- 1))
     ''uint16'' \<lparr>cells = [], capacity = 16\<rparr>) = Inl cast_error"
proof -
  have nm: "map_of dtype_names ''uint16'' = Some Uint16"
    by (simp add: dtype_names_def)
  show ?thesis
    unfolding init_unfold [OF S2 nm store16_any(2)] Let_def by (simp add: expect_int_None)
qed

text \<open>
  Claim C9. For each of the eight integer dtypes and a shape that parses, the
  constructor accepts \<open>True\<close> and \<open>False\<close>: whenever the array can be allocated it returns
  an array of that dtype and shape whose every element is of the dtype and denotes 1 for
  \<open>True\<close> and 0 for \<open>False\<close>. The constructor fails only on a store that cannot satisfy
  the array, with the allocation error that any value meets there.
\<close>

theorem bool_accepted_by_integer_dtypes:
  assumes nm: "map_of dtype_names nm = Some D"
    and S: "make_shape S = Inr shape"
    and D: "integer_dtype D"
  shows "(can_allocate h (nelem shape * itemsize D) \<longrightarrow>
           (\<exists>plex h' b. init_array_plex_with_value f S (PyBool v) nm h = (Inr plex, h')
              \<and> data_type plex = D \<and> m_shape (m_instance plex) = shape
              \<and> elements h' (m_instance plex) = Some b \<and> length b = nelem shape
              \<and> (\<forall>x \<in> set b. \<exists>e. x = Some e \<and> scalar_type e = D
                     \<and> int_value e = Some (if v then 1 else 0))))
       \<and> (\<not> can_allocate h (nelem shape * itemsize D) \<longrightarrow>
           init_array_plex_with_value f S (PyBool v) nm h = (Inl AllocationError, h))"
proof (intro conjI impI)
  assume ca: "can_allocate h (nelem shape * itemsize D)"
  obtain e where e: "narrowed_to D (if v then 1 else 0) = Some e"
    using narrowed_to_defined [OF D] by blast
  have r: "representable D (if v then 1 else 0)"
    using D by (auto simp: integer_dtype_def)
  show "\<exists>plex h' b. init_array_plex_with_value f S (PyBool v) nm h = (Inr plex, h')
              \<and> data_type plex = D \<and> m_shape (m_instance plex) = shape
              \<and> elements h' (m_instance plex) = Some b \<and> length b = nelem shape
              \<and> (\<forall>x \<in> set b. \<exists>e. x = Some e \<and> scalar_type e = D
                     \<and> int_value e = Some (if v then 1 else 0))"
    by (rule filledI [OF init_bool_as_int [OF nm S ca D e] narrowed_to_type [OF e]
          narrowed_to_value [OF r e]])
next
  assume "\<not> can_allocate h (nelem shape * itemsize D)"
  then show "init_array_plex_with_value f S (PyBool v) nm h = (Inl AllocationError, h)"
    by (rule init_alloc_fail [OF S nm])
qed

theorem bool_accepted_by_integer_dtypes_witness:
  "map_of dtype_names ''uint32'' = Some Uint32
   \<and> make_shape (PyList [PyInt 2]) = Inr [2]
   \<and> integer_dtype Uint32
   \<and> can_allocate \<lparr>cells = [], capacity = 16\<rparr> (nelem [2] * itemsize Uint32)
   \<and> (\<exists>plex h' b.
        init_array_plex_with_value ieee_double_to_float (PyList [PyInt 2]) (PyBool True) ''uint32''
          \<lparr>cells = [], capacity = 16\<rparr> = (Inr plex, h')
        \<and> data_type plex = Uint32 \<and> m_shape (m_instance plex) = [2]
        \<and> elements h' (m_instance plex) = Some b \<and> length b = nelem [2]
        \<and> (\<forall>x \<in> set b. \<exists>e. x = Some e \<and> scalar_type e = Uint32 \<and> int_value e = Some 1))
   \<and> \<not> can_allocate \<lparr>cells = [], capacity = 4\<rparr> (nelem [2] * itemsize Uint32)
   \<and> init_array_plex_with_value ieee_double_to_float (PyList [PyInt 2]) (PyBool True) ''uint32''
          \<lparr>cells = [], capacity = 4\<rparr> = (Inl AllocationError, \<lparr>cells = [], capacity = 4\<rparr>)"
proof -
  let ?h = "\<lparr>cells = [], capacity = 16\<rparr>"
  let ?h4 = "\<lparr>cells = [], capacity = 4\<rparr>"
  have nm: "map_of dtype_names ''uint32'' = Some Uint32"
    by (simp add: dtype_names_def)
  have D: "integer_dtype Uint32"
    by (simp add: integer_dtype_def)
  have c4: "\<not> can_allocate ?h4 (nelem [2] * itemsize Uint32)"
    by (simp add: can_allocate_def nelem_2)
  note t = bool_accepted_by_integer_dtypes [OF nm S2 D, where f = ieee_double_to_float and v = True]
  from t [where h = ?h] store16_any(1)
  have ok: "\<exists>plex h' b.
        init_array_plex_with_value ieee_double_to_float (PyList [PyInt 2]) (PyBool True) ''uint32''
          ?h = (Inr plex, h')
        \<and> data_type plex = Uint32 \<and> m_shape (m_instance plex) = [2]
        \<and> elements h' (m_instance plex) = Some b \<and> length b = nelem [2]
        \<and> (\<forall>x \<in> set b. \<exists>e. x = Some e \<and> scalar_type e = Uint32 \<and> int_value e = Some 1)"
    by simp
  from t [where h = ?h4] c4
  have none: "init_array_plex_with_value ieee_double_to_float (PyList [PyInt 2]) (PyBool True)
          ''uint32'' ?h4 = (Inl AllocationError, ?h4)"
    by blast
  show ?thesis
    using nm S2 D store16_any(1) ok c4 none by (intro conjI)
qed

section \<open>Properties of the typed copy\<close>

lemma init_array_plex_ok:
  "map_of dtype_names nm = Some D \<Longrightarrow> make_shape S = Inr shape \<Longrightarrow>
   can_allocate h (nelem shape * itemsize D) \<Longrightarrow>
   init_array_plex S nm h = (Inr (new_plex D shape h), place (new_buffer D shape None) h)"
  by (simp add: init_array_plex_def ctor_ok)

lemma copy_as_ok:
  "buffer_at h (m_buffer (m_instance p)) = Some b \<Longrightarrow> can_allocate h (m_nbytes b) \<Longrightarrow>
   copy_as T p h =
     (Inr (T \<lparr>m_shape = m_shape (m_instance p), m_buffer = length (cells h)\<rparr>), place b h)"
  by (simp add: copy_as_def SimpleArray_copy_def Let_def)

lemma copy_as_fail:
  "buffer_at h (m_buffer (m_instance p)) = Some b \<Longrightarrow> \<not> can_allocate h (m_nbytes b) \<Longrightarrow>
   copy_as T p h = (Inl AllocationError, h)"
  by (simp add: copy_as_def SimpleArray_copy_def Let_def)

lemma get_typed_array_ok:
  assumes "data_type p \<noteq> Undefined"
    and "buffer_at h (m_buffer (m_instance p)) = Some b" and "can_allocate h (m_nbytes b)"
  shows "\<exists>t. get_typed_array p h = (Inr t, place b h)
     \<and> element_type t = data_type p
     \<and> array_of t = \<lparr>m_shape = m_shape (m_instance p), m_buffer = length (cells h)\<rparr>"
  using assms by (cases "data_type p") (simp_all add: get_typed_array_def copy_as_ok)

lemma get_typed_array_fail:
  assumes "buffer_at h (m_buffer (m_instance p)) = Some b" and "\<not> can_allocate h (m_nbytes b)"
  shows "\<exists>e. get_typed_array p h = (Inl e, h)"
  using assms by (cases "data_type p") (simp_all add: get_typed_array_def copy_as_fail)

lemma get_typed_array_alloc_fail:
  assumes "data_type p \<noteq> Undefined"
    and "buffer_at h (m_buffer (m_instance p)) = Some b" and "\<not> can_allocate h (m_nbytes b)"
  shows "get_typed_array p h = (Inl AllocationError, h)"
  using assms by (cases "data_type p") (simp_all add: get_typed_array_def copy_as_fail)

lemma get_typed_array_Undefined:
  "get_typed_array \<lparr>m_data_type = Undefined, m_instance = arr\<rparr> h =
     (Inl (runtime_error ''Unsupported datatype''), h)"
  by (simp add: get_typed_array_def data_type_def)

text \<open>
  The copy that \<open>typed\<close> makes of a plex whose buffer is live, on a store that can satisfy
  a second buffer of the same byte length.
\<close>

lemma typed_is_copy:
  assumes D: "data_type p \<noteq> Undefined"
    and live: "buffer_at h (m_buffer (m_instance p)) = Some buf"
    and ca: "can_allocate h (m_nbytes buf)"
  shows "\<exists>t h2. get_typed_array p h = (Inr t, h2)
     \<and> element_type t = data_type p
     \<and> m_shape (array_of t) = m_shape (m_instance p)
     \<and> m_buffer (array_of t) \<noteq> m_buffer (m_instance p)
     \<and> buffer_at h (m_buffer (array_of t)) = None
     \<and> elements h2 (array_of t) = Some (m_data buf)
     \<and> (\<forall>a. a \<noteq> m_buffer (array_of t) \<longrightarrow> buffer_at h2 a = buffer_at h a)
     \<and> (\<forall>v. elements (fill (array_of t) v h2) (m_instance p) = Some (m_data buf))
     \<and> (\<forall>v. elements (fill (m_instance p) v h2) (array_of t) = Some (m_data buf))"
proof -
  obtain t where t: "get_typed_array p h = (Inr t, place buf h)"
    "element_type t = data_type p"
    "array_of t = \<lparr>m_shape = m_shape (m_instance p), m_buffer = length (cells h)\<rparr>"
    using get_typed_array_ok [OF D live ca] by blast
  have lt: "m_buffer (m_instance p) < length (cells h)"
    by (rule buffer_at_live [OF live])
  then have ne: "m_buffer (array_of t) \<noteq> m_buffer (m_instance p)"
    by (simp add: t)
  have shape: "m_shape (array_of t) = m_shape (m_instance p)"
    by (simp add: t)
  have unused: "buffer_at h (m_buffer (array_of t)) = None"
    by (simp add: t buffer_at_unused)
  have content: "elements (place buf h) (array_of t) = Some (m_data buf)"
    by (simp add: t elements_place_new)
  have frame: "\<forall>a. a \<noteq> m_buffer (array_of t) \<longrightarrow> buffer_at (place buf h) a = buffer_at h a"
    by (simp add: t buffer_at_place_other)
  have orig: "elements (place buf h) (m_instance p) = Some (m_data buf)"
    using lt live by (simp add: elements_def buffer_at_place_other)
  have w1: "\<forall>v. elements (fill (array_of t) v (place buf h)) (m_instance p) = Some (m_data buf)"
    using ne orig by (simp add: elements_def fill_other)
  have w2: "\<forall>v. elements (fill (m_instance p) v (place buf h)) (array_of t) = Some (m_data buf)"
    using ne content by (simp add: elements_def fill_other)
  show ?thesis
    apply (rule exI [of _ t])
    apply (rule exI [of _ "place buf h"])
    apply (intro conjI)
            apply (rule t(1))
           apply (rule t(2))
          apply (rule shape)
         apply (rule ne)
        apply (rule unused)
       apply (rule content)
      apply (rule frame)
     apply (rule w1)
    apply (rule w2)
    done
qed

text \<open>
  Claim C4. For every dtype of the enumeration and every shape that parses, constructing
  a plex and reading \<open>typed\<close> gives, whenever both return (and they do on a store that can
  satisfy the two arrays), an array whose element type is the dtype and whose shape is
  the parsed shape, at another address than the plex's and with the elements of the plex.
  For an arbitrary plex of a supported dtype with a live buffer, on any store that can
  satisfy the copy, the array that \<open>typed\<close> returns is a copy in storage of its own: its
  address held no buffer before the call, its elements are those of the plex, no other
  address has changed, and filling either array afterwards leaves the elements of the
  other as they were; when the store cannot satisfy the copy, \<open>typed\<close> fails with the
  allocation error and changes nothing. On a plex whose tag is outside the enumeration,
  \<open>typed\<close> fails with the runtime error ``Unsupported datatype''.
\<close>

theorem typed_copy_of_new_plex:
  "((nm, D) \<in> set dtype_names \<and> make_shape S = Inr shape \<longrightarrow>
      (can_allocate h (2 * (nelem shape * itemsize D)) \<longrightarrow>
         (\<exists>plex h1 t h2. init_array_plex S nm h = (Inr plex, h1)
            \<and> get_typed_array plex h1 = (Inr t, h2)
            \<and> element_type t = D \<and> m_shape (array_of t) = shape
            \<and> m_buffer (array_of t) \<noteq> m_buffer (m_instance plex)
            \<and> elements h2 (array_of t) = elements h1 (m_instance plex)))
      \<and> (\<forall>plex h1 t h2.
            init_array_plex S nm h = (Inr plex, h1) \<and> get_typed_array plex h1 = (Inr t, h2) \<longrightarrow>
            element_type t = D \<and> m_shape (array_of t) = shape
            \<and> m_buffer (array_of t) \<noteq> m_buffer (m_instance plex)
            \<and> elements h2 (array_of t) = elements h1 (m_instance plex)))
   \<and> (data_type p \<noteq> Undefined \<and> buffer_at h0 (m_buffer (m_instance p)) = Some buf \<longrightarrow>
      (can_allocate h0 (m_nbytes buf) \<longrightarrow>
         (\<exists>t h2. get_typed_array p h0 = (Inr t, h2)
            \<and> element_type t = data_type p
            \<and> m_shape (array_of t) = m_shape (m_instance p)
            \<and> m_buffer (array_of t) \<noteq> m_buffer (m_instance p)
            \<and> buffer_at h0 (m_buffer (array_of t)) = None
            \<and> elements h2 (array_of t) = Some (m_data buf)
            \<and> (\<forall>a. a \<noteq> m_buffer (array_of t) \<longrightarrow> buffer_at h2 a = buffer_at h0 a)
            \<and> (\<forall>v. elements (fill (array_of t) v h2) (m_instance p) = Some (m_data buf))
            \<and> (\<forall>v. elements (fill (m_instance p) v h2) (array_of t) = Some (m_data buf))))
      \<and> (\<not> can_allocate h0 (m_nbytes buf) \<longrightarrow>
            get_typed_array p h0 = (Inl AllocationError, h0)))
   \<and> (\<forall>arr h'. get_typed_array \<lparr>m_data_type = Undefined, m_instance = arr\<rparr> h' =
         (Inl (runtime_error ''Unsupported datatype''), h'))"
proof -
  have U: "\<forall>arr h'. get_typed_array \<lparr>m_data_type = Undefined, m_instance = arr\<rparr> h' =
      (Inl (runtime_error ''Unsupported datatype''), h')"
    by (simp add: get_typed_array_Undefined)
  have B: "data_type p \<noteq> Undefined \<and> buffer_at h0 (m_buffer (m_instance p)) = Some buf \<longrightarrow>
      (can_allocate h0 (m_nbytes buf) \<longrightarrow>
         (\<exists>t h2. get_typed_array p h0 = (Inr t, h2)
            \<and> element_type t = data_type p
            \<and> m_shape (array_of t) = m_shape (m_instance p)
            \<and> m_buffer (array_of t) \<noteq> m_buffer (m_instance p)
            \<and> buffer_at h0 (m_buffer (array_of t)) = None
            \<and> elements h2 (array_of t) = Some (m_data buf)
            \<and> (\<forall>a. a \<noteq> m_buffer (array_of t) \<longrightarrow> buffer_at h2 a = buffer_at h0 a)
            \<and> (\<forall>v. elements (fill (array_of t) v h2) (m_instance p) = Some (m_data buf))
            \<and> (\<forall>v. elements (fill (m_instance p) v h2) (array_of t) = Some (m_data buf))))
      \<and> (\<not> can_allocate h0 (m_nbytes buf) \<longrightarrow>
            get_typed_array p h0 = (Inl AllocationError, h0))"
    using typed_is_copy [of p h0 buf] get_typed_array_alloc_fail [of p h0 buf]
    by (intro impI conjI; elim conjE) assumption+
  have A: "(can_allocate h (2 * (nelem shape * itemsize D)) \<longrightarrow>
         (\<exists>plex h1 t h2. init_array_plex S nm h = (Inr plex, h1)
            \<and> get_typed_array plex h1 = (Inr t, h2)
            \<and> element_type t = D \<and> m_shape (array_of t) = shape
            \<and> m_buffer (array_of t) \<noteq> m_buffer (m_instance plex)
            \<and> elements h2 (array_of t) = elements h1 (m_instance plex)))
      \<and> (\<forall>plex h1 t h2.
            init_array_plex S nm h = (Inr plex, h1) \<and> get_typed_array plex h1 = (Inr t, h2) \<longrightarrow>
            element_type t = D \<and> m_shape (array_of t) = shape
            \<and> m_buffer (array_of t) \<noteq> m_buffer (m_instance plex)
            \<and> elements h2 (array_of t) = elements h1 (m_instance plex))"
    if nmD: "(nm, D) \<in> set dtype_names" and S: "make_shape S = Inr shape"
  proof -
    have nm: "map_of dtype_names nm = Some D"
      by (rule dtype_names_map_of [OF nmD])
    let ?buf = "new_buffer D shape None"
    let ?plex = "new_plex D shape h"
    have D: "data_type ?plex \<noteq> Undefined"
      using dtype_names_cases [OF nm] by (auto simp: data_type_def new_plex_def)
    have live: "buffer_at (place ?buf h) (m_buffer (m_instance ?plex)) = Some ?buf"
      by (simp add: new_plex_def buffer_at_place_new)
    have total: "\<exists>plex h1 t h2. init_array_plex S nm h = (Inr plex, h1)
            \<and> get_typed_array plex h1 = (Inr t, h2)"
      if ca: "can_allocate h (2 * (nelem shape * itemsize D))"
    proof -
      define B where "B = nelem shape * itemsize D"
      have "can_allocate h (2 * B)"
        using ca by (simp add: B_def)
      then have "can_allocate h B"
        and "can_allocate (place \<lparr>m_nbytes = B, m_data = replicate (nelem shape) None\<rparr> h) B"
        by (simp_all add: can_allocate_def place_def) arith
      then have c1: "can_allocate h (nelem shape * itemsize D)"
        and c2: "can_allocate (place ?buf h) (m_nbytes ?buf)"
        by (simp_all add: B_def new_buffer_def)
      from get_typed_array_ok [OF D live c2] init_array_plex_ok [OF nm S c1]
      show ?thesis
        by blast
    qed
    have partial: "element_type t = D \<and> m_shape (array_of t) = shape
            \<and> m_buffer (array_of t) \<noteq> m_buffer (m_instance plex)
            \<and> elements h2 (array_of t) = elements h1 (m_instance plex)"
      if i: "init_array_plex S nm h = (Inr plex, h1)"
        and g: "get_typed_array plex h1 = (Inr t, h2)" for plex h1 t h2
    proof -
      have c1: "can_allocate h (nelem shape * itemsize D)"
        using i S nm
        by (cases "can_allocate h (nelem shape * itemsize D)")
          (simp_all add: init_array_plex_def ctor_fail)
      have p: "plex = ?plex" and h1: "h1 = place ?buf h"
        using i init_array_plex_ok [OF nm S c1] by simp_all
      have c2: "can_allocate h1 (m_nbytes ?buf)"
        using g get_typed_array_alloc_fail [OF D live] unfolding p h1
        by (cases "can_allocate (place ?buf h) (m_nbytes ?buf)") simp_all
      from typed_is_copy [OF D live c2 [unfolded h1]] g
      have "element_type t = data_type ?plex \<and> m_shape (array_of t) = m_shape (m_instance ?plex)
          \<and> m_buffer (array_of t) \<noteq> m_buffer (m_instance ?plex)
          \<and> elements h2 (array_of t) = Some (m_data ?buf)"
        unfolding p h1 by auto
      moreover have "elements h1 (m_instance plex) = Some (m_data ?buf)"
        using live by (simp add: elements_def p h1)
      moreover have "data_type ?plex = D" "m_shape (m_instance ?plex) = shape"
        by (simp_all add: new_plex_def data_type_def)
      ultimately show ?thesis
        by (simp add: p)
    qed
    have "\<exists>plex h1 t h2. init_array_plex S nm h = (Inr plex, h1)
            \<and> get_typed_array plex h1 = (Inr t, h2)
            \<and> element_type t = D \<and> m_shape (array_of t) = shape
            \<and> m_buffer (array_of t) \<noteq> m_buffer (m_instance plex)
            \<and> elements h2 (array_of t) = elements h1 (m_instance plex)"
      if ca: "can_allocate h (2 * (nelem shape * itemsize D))"
    proof -
      from total [OF ca] obtain plex h1 t h2
        where r: "init_array_plex S nm h = (Inr plex, h1)" "get_typed_array plex h1 = (Inr t, h2)"
        by blast
      from r partial [OF r] show ?thesis
        by blast
    qed
    with partial show ?thesis
      by blast
  qed
  from A B U show ?thesis
    by blast
qed

theorem typed_copy_of_new_plex_witness:
  "(''float64'', Float64) \<in> set dtype_names
   \<and> make_shape (PyList [PyInt 2, PyInt 3]) = Inr [2, 3]
   \<and> can_allocate \<lparr>cells = [], capacity = 96\<rparr> (2 * (nelem [2, 3] * itemsize Float64))
   \<and> (\<exists>plex h1 t h2.
        init_array_plex (PyList [PyInt 2, PyInt 3]) ''float64'' \<lparr>cells = [], capacity = 96\<rparr> =
          (Inr plex, h1)
      \<and> get_typed_array plex h1 = (Inr t, h2)
      \<and> element_type t = Float64 \<and> m_shape (array_of t) = [2, 3]
      \<and> m_buffer (array_of t) \<noteq> m_buffer (m_instance plex)
      \<and> elements h2 (array_of t) = elements h1 (m_instance plex))
   \<and> buffer_at
        \<lparr>cells = [Some \<lparr>m_nbytes = 24, m_data = replicate 3 (Some (VFloat64 double_2_5))\<rparr>],
          capacity = 24\<rparr> 0 =
       Some \<lparr>m_nbytes = 24, m_data = replicate 3 (Some (VFloat64 double_2_5))\<rparr>
   \<and> (\<exists>t h2.
        get_typed_array \<lparr>m_data_type = Float64, m_instance = \<lparr>m_shape = [3], m_buffer = 0\<rparr>\<rparr>
          \<lparr>cells = [Some \<lparr>m_nbytes = 24, m_data = replicate 3 (Some (VFloat64 double_2_5))\<rparr>],
            capacity = 24\<rparr> = (Inr t, h2)
      \<and> element_type t = Float64 \<and> m_shape (array_of t) = [3]
      \<and> m_buffer (array_of t) \<noteq> 0
      \<and> elements h2 (array_of t) = Some (replicate 3 (Some (VFloat64 double_2_5)))
      \<and> (\<forall>v. elements (fill (array_of t) v h2) \<lparr>m_shape = [3], m_buffer = 0\<rparr> =
             Some (replicate 3 (Some (VFloat64 double_2_5)))))
   \<and> get_typed_array \<lparr>m_data_type = Float64, m_instance = \<lparr>m_shape = [3], m_buffer = 0\<rparr>\<rparr>
        \<lparr>cells = [Some \<lparr>m_nbytes = 24, m_data = replicate 3 (Some (VFloat64 double_2_5))\<rparr>],
          capacity = 8\<rparr> =
       (Inl AllocationError,
        \<lparr>cells = [Some \<lparr>m_nbytes = 24, m_data = replicate 3 (Some (VFloat64 double_2_5))\<rparr>],
          capacity = 8\<rparr>)"
proof -
  let ?buf = "\<lparr>m_nbytes = 24, m_data = replicate 3 (Some (VFloat64 double_2_5))\<rparr>"
  let ?p = "\<lparr>m_data_type = Float64, m_instance = \<lparr>m_shape = [3], m_buffer = 0\<rparr>\<rparr>"
  let ?live = "\<lparr>cells = [Some ?buf], capacity = 24\<rparr>"
  let ?full = "\<lparr>cells = [Some ?buf], capacity = 8\<rparr>"
  let ?fresh = "\<lparr>cells = [], capacity = 96\<rparr>"
  have nmD: "(''float64'', Float64) \<in> set dtype_names"
    by (simp add: dtype_names_def)
  have S: "make_shape (PyList [PyInt 2, PyInt 3]) = Inr [2, 3]"
    by (simp add: make_shape_def)
  have ca: "can_allocate ?fresh (2 * (nelem [2, 3] * itemsize Float64))"
    by (simp add: can_allocate_def nelem_def)
  have D: "data_type ?p \<noteq> Undefined"
    by (simp add: data_type_def)
  have live0: "buffer_at ?live 0 = Some ?buf" and live8: "buffer_at ?full (m_buffer (m_instance ?p)) = Some ?buf"
    by (simp_all add: buffer_at_def)
  have c0: "can_allocate ?live (m_nbytes ?buf)" and c8: "\<not> can_allocate ?full (m_nbytes ?buf)"
    by (simp_all add: can_allocate_def)
  have live: "buffer_at ?live (m_buffer (m_instance ?p)) = Some ?buf"
    using live0 by simp
  note t0 = typed_copy_of_new_plex [of "''float64''" Float64 "PyList [PyInt 2, PyInt 3]" "[2, 3]" ?fresh ?p ?live ?buf]
  note t8 = typed_copy_of_new_plex [of "''float64''" Float64 "PyList [PyInt 2, PyInt 3]" "[2, 3]" ?fresh ?p ?full ?buf]
  from t0 nmD S ca
  have A: "\<exists>plex h1 t h2.
        init_array_plex (PyList [PyInt 2, PyInt 3]) ''float64'' ?fresh = (Inr plex, h1)
      \<and> get_typed_array plex h1 = (Inr t, h2)
      \<and> element_type t = Float64 \<and> m_shape (array_of t) = [2, 3]
      \<and> m_buffer (array_of t) \<noteq> m_buffer (m_instance plex)
      \<and> elements h2 (array_of t) = elements h1 (m_instance plex)"
    by blast
  from t0 D live c0
  have "\<exists>t h2. get_typed_array ?p ?live = (Inr t, h2)
            \<and> element_type t = data_type ?p
            \<and> m_shape (array_of t) = m_shape (m_instance ?p)
            \<and> m_buffer (array_of t) \<noteq> m_buffer (m_instance ?p)
            \<and> buffer_at ?live (m_buffer (array_of t)) = None
            \<and> elements h2 (array_of t) = Some (m_data ?buf)
            \<and> (\<forall>a. a \<noteq> m_buffer (array_of t) \<longrightarrow> buffer_at h2 a = buffer_at ?live a)
            \<and> (\<forall>v. elements (fill (array_of t) v h2) (m_instance ?p) = Some (m_data ?buf))
            \<and> (\<forall>v. elements (fill (m_instance ?p) v h2) (array_of t) = Some (m_data ?buf))"
    by blast
  then have B: "\<exists>t h2. get_typed_array ?p ?live = (Inr t, h2)
      \<and> element_type t = Float64 \<and> m_shape (array_of t) = [3]
      \<and> m_buffer (array_of t) \<noteq> 0
      \<and> elements h2 (array_of t) = Some (replicate 3 (Some (VFloat64 double_2_5)))
      \<and> (\<forall>v. elements (fill (array_of t) v h2) \<lparr>m_shape = [3], m_buffer = 0\<rparr> =
             Some (replicate 3 (Some (VFloat64 double_2_5))))"
    by (simp add: data_type_def) blast
  from t8 D live8 c8
  have C: "get_typed_array ?p ?full = (Inl AllocationError, ?full)"
    by blast
  show ?thesis
    using nmD S ca A live0 B C by (intro conjI)
qed

section \<open>Properties of the float round trip\<close>

text \<open>
  The round trip of a float fill value: the constructor stores the double of the Python
  float in every element, and \<open>typed\<close> copies the elements.
\<close>

lemma double_2_5_value: "double_value double_2_5 = Some (5 / 2)"
proof -
  have e: "unat (take_bit 11 (drop_bit 52 double_2_5)) = 1024"
    and m: "unat (take_bit 52 double_2_5) = 2 ^ 50"
    and s: "\<not> bit double_2_5 63"
    unfolding double_2_5_def by simp_all
  show ?thesis
    unfolding double_value_def Let_def by (simp add: e m s)
qed

lemma nelem_3: "nelem [3] = 3"
  by (simp add: nelem_def)

lemma three: "replicate 3 x = [x, x, x]"
  by (simp add: numeral_3_eq_3)

lemma float64_fill:
  assumes ca: "can_allocate h 24"
  shows "init_array_plex_with_value f (PyList [PyInt 3]) (PyFloat d) ''float64'' h =
     (Inr (new_plex Float64 [3] h), place (new_buffer Float64 [3] (Some (VFloat64 d))) h)"
proof -
  have S: "make_shape (PyList [PyInt 3]) = Inr [3]"
    by (simp add: make_shape_def)
  have nm: "map_of dtype_names ''float64'' = Some Float64"
    by (simp add: dtype_names_def)
  have ca': "can_allocate h (nelem [3] * itemsize Float64)"
    using ca by (simp add: nelem_3)
  show ?thesis
    unfolding init_unfold [OF S nm ca'] Let_def by (simp add: fill_with_Some)
qed

lemma float64_fill_fail:
  assumes ca: "\<not> can_allocate h 24"
  shows "init_array_plex_with_value f (PyList [PyInt 3]) (PyFloat d) ''float64'' h =
     (Inl AllocationError, h)"
proof -
  have S: "make_shape (PyList [PyInt 3]) = Inr [3]"
    by (simp add: make_shape_def)
  have nm: "map_of dtype_names ''float64'' = Some Float64"
    by (simp add: dtype_names_def)
  have "\<not> can_allocate h (nelem [3] * itemsize Float64)"
    using ca by (simp add: nelem_3)
  then show ?thesis
    by (rule init_alloc_fail [OF S nm])
qed

lemma float64_typed:
  assumes ca: "can_allocate (place (new_buffer Float64 [3] (Some (VFloat64 d))) h) 24"
  shows "get_typed_array (new_plex Float64 [3] h) (place (new_buffer Float64 [3] (Some (VFloat64 d))) h) =
     (Inr (SimpleArrayFloat64 \<lparr>m_shape = [3], m_buffer = Suc (length (cells h))\<rparr>),
      place (new_buffer Float64 [3] (Some (VFloat64 d))) (place (new_buffer Float64 [3] (Some (VFloat64 d))) h))"
proof -
  let ?buf = "new_buffer Float64 [3] (Some (VFloat64 d))"
  have live: "buffer_at (place ?buf h) (m_buffer (m_instance (new_plex Float64 [3] h))) = Some ?buf"
    by (simp add: new_plex_def buffer_at_place_new)
  have "can_allocate (place ?buf h) (m_nbytes ?buf)"
    using ca by (simp add: new_buffer_def nelem_3)
  from copy_as_ok [OF live this, of SimpleArrayFloat64]
  show ?thesis
    by (simp add: get_typed_array_def data_type_def new_plex_def length_place)
qed

lemma float64_typed_fail:
  assumes ca: "\<not> can_allocate (place (new_buffer Float64 [3] (Some (VFloat64 d))) h) 24"
  shows "get_typed_array (new_plex Float64 [3] h) (place (new_buffer Float64 [3] (Some (VFloat64 d))) h) =
     (Inl AllocationError, place (new_buffer Float64 [3] (Some (VFloat64 d))) h)"
proof -
  let ?buf = "new_buffer Float64 [3] (Some (VFloat64 d))"
  have live: "buffer_at (place ?buf h) (m_buffer (m_instance (new_plex Float64 [3] h))) = Some ?buf"
    by (simp add: new_plex_def buffer_at_place_new)
  have "\<not> can_allocate (place ?buf h) (m_nbytes ?buf)"
    using ca by (simp add: new_buffer_def nelem_3)
  from copy_as_fail [OF live this, of SimpleArrayFloat64]
  show ?thesis
    by (simp add: get_typed_array_def data_type_def new_plex_def)
qed

lemma float64_copy_elements:
  "elements (place (new_buffer Float64 [3] (Some (VFloat64 d))) (place b h))
     \<lparr>m_shape = [3], m_buffer = Suc (length (cells h))\<rparr> =
   Some [Some (VFloat64 d), Some (VFloat64 d), Some (VFloat64 d)]"
  using elements_place_new [of "new_buffer Float64 [3] (Some (VFloat64 d))" "place b h" "[3]"]
  by (simp add: length_place new_buffer_def nelem_3 three)

lemma float64_roundtrip:
  "(can_allocate h 48 \<longrightarrow>
      (\<exists>plex h1 arr h2.
         init_array_plex_with_value f (PyList [PyInt 3]) (PyFloat d) ''float64'' h = (Inr plex, h1)
       \<and> get_typed_array plex h1 = (Inr (SimpleArrayFloat64 arr), h2)))
   \<and> (\<forall>plex h1 t h2.
         init_array_plex_with_value f (PyList [PyInt 3]) (PyFloat d) ''float64'' h = (Inr plex, h1)
         \<and> get_typed_array plex h1 = (Inr t, h2) \<longrightarrow>
         (\<exists>arr. t = SimpleArrayFloat64 arr \<and> m_shape arr = [3]
            \<and> elements h2 arr = Some [Some (VFloat64 d), Some (VFloat64 d), Some (VFloat64 d)]))"
proof (intro conjI impI allI)
  let ?buf = "new_buffer Float64 [3] (Some (VFloat64 d))"
  assume ca: "can_allocate h 48"
  then have c1: "can_allocate h 24" and c2: "can_allocate (place ?buf h) 24"
    by (simp_all add: can_allocate_def place_def new_buffer_def nelem_3)
  from float64_fill [OF c1] float64_typed [OF c2]
  show "\<exists>plex h1 arr h2.
         init_array_plex_with_value f (PyList [PyInt 3]) (PyFloat d) ''float64'' h = (Inr plex, h1)
       \<and> get_typed_array plex h1 = (Inr (SimpleArrayFloat64 arr), h2)"
    by blast
next
  fix plex h1 t h2
  let ?buf = "new_buffer Float64 [3] (Some (VFloat64 d))"
  assume a: "init_array_plex_with_value f (PyList [PyInt 3]) (PyFloat d) ''float64'' h = (Inr plex, h1)
         \<and> get_typed_array plex h1 = (Inr t, h2)"
  then have c1: "can_allocate h 24"
    using float64_fill_fail [of h f d] by (cases "can_allocate h 24") simp_all
  from a float64_fill [OF c1, of f d]
  have p: "plex = new_plex Float64 [3] h" and h1: "h1 = place ?buf h"
    by simp_all
  from a have g: "get_typed_array (new_plex Float64 [3] h) (place ?buf h) = (Inr t, h2)"
    by (simp add: p h1)
  then have c2: "can_allocate (place ?buf h) 24"
    using float64_typed_fail [of d h] by (cases "can_allocate (place ?buf h) 24") simp_all
  from g float64_typed [OF c2]
  have t: "t = SimpleArrayFloat64 \<lparr>m_shape = [3], m_buffer = Suc (length (cells h))\<rparr>"
    and h2: "h2 = place ?buf (place ?buf h)"
    by simp_all
  show "\<exists>arr. t = SimpleArrayFloat64 arr \<and> m_shape arr = [3]
            \<and> elements h2 arr = Some [Some (VFloat64 d), Some (VFloat64 d), Some (VFloat64 d)]"
    unfolding t h2 using float64_copy_elements [of d ?buf h] by simp
qed

text \<open>
  Claim C5. A Float64 plex of shape \<open>[3]\<close> constructed with the fill value 2.5, read
  through \<open>typed\<close>, is a Float64 array of shape \<open>[3]\<close> whose three elements are the double
  2.5, bit for bit: this holds of every result of the two calls, on any store, and the two
  calls return on every store that can satisfy the two arrays of 24 bytes.
\<close>

theorem float64_roundtrip_2_5:
  "double_value double_2_5 = Some (5 / 2)
   \<and> (can_allocate h 48 \<longrightarrow>
      (\<exists>plex h1 arr h2.
         init_array_plex_with_value f (PyList [PyInt 3]) (PyFloat double_2_5) ''float64'' h =
           (Inr plex, h1)
       \<and> get_typed_array plex h1 = (Inr (SimpleArrayFloat64 arr), h2)
       \<and> m_shape arr = [3]
       \<and> elements h2 arr =
           Some [Some (VFloat64 double_2_5), Some (VFloat64 double_2_5),
                 Some (VFloat64 double_2_5)]))
   \<and> (\<forall>plex h1 t h2.
         init_array_plex_with_value f (PyList [PyInt 3]) (PyFloat double_2_5) ''float64'' h =
           (Inr plex, h1)
         \<and> get_typed_array plex h1 = (Inr t, h2) \<longrightarrow>
         (\<exists>arr. t = SimpleArrayFloat64 arr \<and> m_shape arr = [3]
            \<and> elements h2 arr =
                Some [Some (VFloat64 double_2_5), Some (VFloat64 double_2_5),
                      Some (VFloat64 double_2_5)]))"
proof -
  let ?I = "\<lambda>plex h1. init_array_plex_with_value f (PyList [PyInt 3]) (PyFloat double_2_5)
      ''float64'' h = (Inr plex, h1)"
  let ?E = "\<lambda>h2 arr. m_shape arr = [3] \<and> elements h2 arr =
      Some [Some (VFloat64 double_2_5), Some (VFloat64 double_2_5), Some (VFloat64 double_2_5)]"
  note r = float64_roundtrip [of h f double_2_5]
  have partial: "\<exists>arr. t = SimpleArrayFloat64 arr \<and> ?E h2 arr"
    if "?I plex h1" "get_typed_array plex h1 = (Inr t, h2)" for plex h1 t h2
    using r that by blast
  have total: "\<exists>plex h1 arr h2. ?I plex h1
      \<and> get_typed_array plex h1 = (Inr (SimpleArrayFloat64 arr), h2) \<and> ?E h2 arr"
    if ca: "can_allocate h 48"
  proof -
    from r ca obtain plex h1 arr h2
      where c: "?I plex h1" "get_typed_array plex h1 = (Inr (SimpleArrayFloat64 arr), h2)"
      by blast
    from partial [OF c] have "?E h2 arr"
      by simp
    with c show ?thesis
      by blast
  qed
  from double_2_5_value total partial show ?thesis
    by blast
qed

theorem float64_roundtrip_2_5_witness:
  "can_allocate \<lparr>cells = [], capacity = 48\<rparr> 48
   \<and> (\<exists>plex h1 arr h2.
         init_array_plex_with_value ieee_double_to_float (PyList [PyInt 3]) (PyFloat double_2_5)
           ''float64'' \<lparr>cells = [], capacity = 48\<rparr> = (Inr plex, h1)
       \<and> get_typed_array plex h1 = (Inr (SimpleArrayFloat64 arr), h2)
       \<and> m_shape arr = [3]
       \<and> elements h2 arr =
           Some [Some (VFloat64 double_2_5), Some (VFloat64 double_2_5),
                 Some (VFloat64 double_2_5)])"
proof -
  have ca: "can_allocate \<lparr>cells = [], capacity = 48\<rparr> 48"
    by (simp add: can_allocate_def)
  with float64_roundtrip_2_5 [of "\<lparr>cells = [], capacity = 48\<rparr>" ieee_double_to_float]
  show ?thesis
    by blast
qed

end
